theory Spec2Isabelle
  imports Main "HOL-Library.Word"
begin

unbundle bit_operations_syntax

section \<open>Data model\<close>

text \<open>
  The data layer of \<^verbatim>\<open>src/datalayer/datalayer.go\<close> talks to a DynamoDB client through
  five calls (Scan, PutItem, DeleteItem, GetItem, UpdateItem).  Go's \<^verbatim>\<open>error\<close> values are
  a datatype following the taxonomy of the specification; a nil error is \<open>None\<close>.
  The \<^verbatim>\<open>fmt.Printf\<close> diagnostics of the source write to standard output only and are
  not part of the model.
\<close>

datatype error = StoreError string | MarshalError string | UnmarshalError string

text \<open>
  \<^verbatim>\<open>dynamodb.AttributeValue\<close>: the attribute kinds that occur in the two tables.  A number
  travels as its decimal text, a string set as a slice of strings.
\<close>

datatype AttributeValue =
    AvS string
  | AvN string
  | AvSS "string list"
  | AvBOOL bool
  | AvNULL

type_synonym Item = "string \<rightharpoonup> AttributeValue"

record Passenger =
  ID :: string
  Name :: string

text \<open>
  \<^verbatim>\<open>model.Flight\<close>; its \<^verbatim>\<open>Passengers\<close> field is a slice of pointers
  (\<^verbatim>\<open>[]*model.Passenger\<close>), so an entry is \<open>Some p\<close> or the nil pointer \<open>None\<close>.
\<close>

record Flight =
  Number :: string
  Capacity :: int
  Captain :: string
  Plane :: string
  Passengers :: "Passenger option list"

record DynamoFlight =
  DynamoNumber :: string
  DynamoPassengers :: "string list"
  DynamoCapacity :: int
  DynamoCaptain :: string
  DynamoPlane :: string

subsection \<open>Requests and responses of the client\<close>

record ScanInput =
  Scan_TableName :: string

record ScanOutput =
  Scan_Items :: "Item list"
  Scan_LastEvaluatedKey :: Item

record PutItemInput =
  Put_Item :: Item
  Put_TableName :: string

record DeleteItemInput =
  Delete_Key :: Item
  Delete_TableName :: string

record GetItemInput =
  Get_Key :: Item
  Get_TableName :: string

record GetItemOutput =
  Get_Item :: Item

record UpdateItemInput =
  ExpressionAttributeNames :: "string \<rightharpoonup> string"
  ExpressionAttributeValues :: Item
  Update_Key :: Item
  Update_TableName :: string
  UpdateExpression :: string

text \<open>
  \<^verbatim>\<open>*dynamodb.DynamoDB\<close>: the client is a parameter of the data layer (the field
  \<^verbatim>\<open>svc\<close> of \<^verbatim>\<open>Database\<close>).  Each call takes the state \<open>'s\<close> of the world behind the
  client and returns its answer with the new state.  A call returns its output struct and
  an error, as the SDK does; the outputs of PutItem, DeleteItem and UpdateItem are
  discarded by the source (\<^verbatim>\<open>_, err := ...\<close>) and are left out.  \<^verbatim>\<open>NewDatabase\<close> and
  \<^verbatim>\<open>initialiseDb\<close> only build the client from the shared AWS configuration; the model
  starts from a database that holds its client.
\<close>

record 's DynamoDB =
  Scan :: "ScanInput \<Rightarrow> 's \<Rightarrow> (ScanOutput \<times> error option) \<times> 's"
  PutItem :: "PutItemInput \<Rightarrow> 's \<Rightarrow> error option \<times> 's"
  DeleteItem :: "DeleteItemInput \<Rightarrow> 's \<Rightarrow> error option \<times> 's"
  GetItem :: "GetItemInput \<Rightarrow> 's \<Rightarrow> (GetItemOutput \<times> error option) \<times> 's"
  UpdateItem :: "UpdateItemInput \<Rightarrow> 's \<Rightarrow> error option \<times> 's"

record 's Database =
  svc :: "'s DynamoDB"

section \<open>Encoding and decoding of records\<close>

text \<open>
  Modelled from the spec: \<^verbatim>\<open>dynamodbattribute.MarshalMap\<close> and
  \<^verbatim>\<open>dynamodbattribute.UnmarshalMap\<close> belong to the SDK and the type \<^verbatim>\<open>model.Passenger\<close>
  to a generated package, none of them under \<^verbatim>\<open>src/\<close>.  The specification gives a
  passenger the attributes \<open>id\<close> and \<open>name\<close> (strings) and a flight the attributes
  \<open>number\<close>, \<open>capacity\<close> (an int), \<open>captain\<close>, \<open>plane\<close> and \<open>passengers\<close> (a string set).
  The encoder writes a string field as a string attribute and an empty string as NULL.
  Decoding leaves a field at its zero value when the attribute is absent or NULL, reads
  a number attribute into a string field as its decimal text, and fails with an
  \<open>UnmarshalError\<close> when the attribute has any other kind than the field.
\<close>

definition encodeString :: "string \<Rightarrow> AttributeValue" where
  "encodeString s = (if s = '''' then AvNULL else AvS s)"

definition MarshalMap_Passenger :: "Passenger \<Rightarrow> Item \<times> error option" where
  "MarshalMap_Passenger p =
     ([''id'' \<mapsto> encodeString (ID p), ''name'' \<mapsto> encodeString (Name p)], None)"

definition decodeString :: "string \<Rightarrow> AttributeValue option \<Rightarrow> error + string" where
  "decodeString field av =
     (case av of
        None \<Rightarrow> Inr ''''
      | Some AvNULL \<Rightarrow> Inr ''''
      | Some (AvS s) \<Rightarrow> Inr s
      | Some (AvN s) \<Rightarrow> Inr s
      | Some _ \<Rightarrow> Inl (UnmarshalError field))"

definition decodeStringSet :: "string \<Rightarrow> AttributeValue option \<Rightarrow> error + string list" where
  "decodeStringSet field av =
     (case av of
        None \<Rightarrow> Inr []
      | Some AvNULL \<Rightarrow> Inr []
      | Some (AvSS xs) \<Rightarrow> Inr xs
      | Some _ \<Rightarrow> Inl (UnmarshalError field))"

definition digitVal :: "char \<Rightarrow> nat option" where
  "digitVal c =
     (let n = of_char c :: nat in
      if 48 \<le> n \<and> n \<le> 57 then Some (n - 48) else None)"

fun parseDigits :: "nat \<Rightarrow> string \<Rightarrow> nat option" where
  "parseDigits acc [] = Some acc"
| "parseDigits acc (c # cs) =
     (case digitVal c of
        None \<Rightarrow> None
      | Some v \<Rightarrow> parseDigits (10 * acc + v) cs)"

text \<open>
  \<^verbatim>\<open>strconv.ParseInt(s, 10, 64)\<close>: an optional sign, at least one digit, and a value in
  the range of Go's 64-bit \<^verbatim>\<open>int\<close>.
\<close>

definition ParseInt :: "string \<Rightarrow> int option" where
  "ParseInt s =
     (let (neg, ds) =
            (case s of
               c # cs \<Rightarrow> if c = CHR ''-'' then (True, cs)
                         else if c = CHR ''+'' then (False, cs) else (False, s)
             | [] \<Rightarrow> (False, s))
      in if ds = [] then None
         else (case parseDigits 0 ds of
                 None \<Rightarrow> None
               | Some n \<Rightarrow>
                   (let v = (if neg then - int n else int n)
                    in if - (2 ^ 63) \<le> v \<and> v < 2 ^ 63 then Some v else None)))"

definition decodeInt :: "string \<Rightarrow> AttributeValue option \<Rightarrow> error + int" where
  "decodeInt field av =
     (case av of
        None \<Rightarrow> Inr 0
      | Some AvNULL \<Rightarrow> Inr 0
      | Some (AvN s) \<Rightarrow>
          (case ParseInt s of None \<Rightarrow> Inl (UnmarshalError field) | Some v \<Rightarrow> Inr v)
      | Some _ \<Rightarrow> Inl (UnmarshalError field))"

definition UnmarshalMap_Passenger :: "Item \<Rightarrow> error + Passenger" where
  "UnmarshalMap_Passenger m =
     (case decodeString ''id'' (m ''id'') of
        Inl e \<Rightarrow> Inl e
      | Inr i \<Rightarrow>
          (case decodeString ''name'' (m ''name'') of
             Inl e \<Rightarrow> Inl e
           | Inr n \<Rightarrow> Inr \<lparr>ID = i, Name = n\<rparr>))"

definition UnmarshalMap_DynamoFlight :: "Item \<Rightarrow> error + DynamoFlight" where
  "UnmarshalMap_DynamoFlight m =
     (case decodeString ''number'' (m ''number'') of
        Inl e \<Rightarrow> Inl e
      | Inr num \<Rightarrow>
     (case decodeStringSet ''passengers'' (m ''passengers'') of
        Inl e \<Rightarrow> Inl e
      | Inr ps \<Rightarrow>
     (case decodeInt ''capacity'' (m ''capacity'') of
        Inl e \<Rightarrow> Inl e
      | Inr cap \<Rightarrow>
     (case decodeString ''captain'' (m ''captain'') of
        Inl e \<Rightarrow> Inl e
      | Inr capt \<Rightarrow>
     (case decodeString ''plane'' (m ''plane'') of
        Inl e \<Rightarrow> Inl e
      | Inr pl \<Rightarrow>
          Inr \<lparr>DynamoNumber = num, DynamoPassengers = ps, DynamoCapacity = cap,
               DynamoCaptain = capt, DynamoPlane = pl\<rparr>)))))"

section \<open>Passenger identifiers\<close>

text \<open>
  The package \<^verbatim>\<open>github.com/google/uuid\<close> is a library outside the repository.  Its
  \<^verbatim>\<open>uuid.UUID\<close> is a \<^verbatim>\<open>[16]byte\<close>, and \<^verbatim>\<open>String\<close> prints it in the canonical form
  \<^verbatim>\<open>xxxxxxxx-xxxx-xxxx-xxxx-xxxxxxxxxxxx\<close>: lower-case hexadecimal, two digits a byte, in
  groups of 4, 2, 2, 2 and 6 bytes.
\<close>

type_synonym UUID = "8 word list"

definition hexDigit :: "8 word \<Rightarrow> char" where
  "hexDigit n = ''0123456789abcdef'' ! unat n"

definition hexEncode :: "8 word list \<Rightarrow> string" where
  "hexEncode bs = concat (map (\<lambda>b. [hexDigit (drop_bit 4 b), hexDigit (b AND 0x0f)]) bs)"

definition UUID_String :: "UUID \<Rightarrow> string" where
  "UUID_String u =
     hexEncode (take 4 u) @ ''-'' @ hexEncode (take 2 (drop 4 u)) @ ''-'' @
     hexEncode (take 2 (drop 6 u)) @ ''-'' @ hexEncode (take 2 (drop 8 u)) @ ''-'' @
     hexEncode (drop 10 u)"

section \<open>The data layer\<close>

definition scanTable :: "'s Database \<Rightarrow> string \<Rightarrow> 's \<Rightarrow> (ScanOutput \<times> error option) \<times> 's" where
  "scanTable d tableName s =
     (let params = \<lparr>Scan_TableName = tableName\<rparr>
      in Scan (svc d) params s)"

text \<open>
  \<^verbatim>\<open>CreatePassenger\<close>.  The source draws the identifier with \<^verbatim>\<open>uuid.New()\<close>, a
  package-level function that reads the process's random source: here the parameter
  \<open>uuid_New\<close>, which reads the world state and answers \<open>None\<close> when \<^verbatim>\<open>uuid.New\<close> panics
  (it is \<^verbatim>\<open>uuid.Must(uuid.NewRandom())\<close>).  The result of the function is \<open>None\<close> when
  the call panics and otherwise the pair \<^verbatim>\<open>(*model.Passenger, error)\<close>.
\<close>

definition CreatePassenger ::
  "('s \<Rightarrow> UUID option \<times> 's) \<Rightarrow> 's Database \<Rightarrow> string \<Rightarrow> 's \<Rightarrow>
   (Passenger option \<times> error option) option \<times> 's" where
  "CreatePassenger uuid_New d name s =
     (case uuid_New s of
        (None, s0) \<Rightarrow> (None, s0)
      | (Some u, s0) \<Rightarrow>
          (let item = \<lparr>ID = UUID_String u, Name = name\<rparr>;
               (av, err) = MarshalMap_Passenger item
           in case err of
                Some e \<Rightarrow> (Some (None, Some e), s0)
              | None \<Rightarrow>
                  (let tableName = ''passengers'';
                       input = \<lparr>Put_Item = av, Put_TableName = tableName\<rparr>;
                       (err, s1) = PutItem (svc d) input s0
                   in case err of
                        Some e \<Rightarrow> (Some (None, Some e), s1)
                      | None \<Rightarrow> (Some (Some item, None), s1))))"

definition DeletePassenger :: "'s Database \<Rightarrow> string \<Rightarrow> 's \<Rightarrow> (bool \<times> error option) \<times> 's" where
  "DeletePassenger d passengerId s =
     (let input = \<lparr>Delete_Key = [''id'' \<mapsto> AvS passengerId],
                   Delete_TableName = ''passengers''\<rparr>;
          (err, s') = DeleteItem (svc d) input s
      in case err of
           Some e \<Rightarrow> ((False, Some e), s')
         | None \<Rightarrow> ((True, None), s'))"

definition addToSet ::
  "'s DynamoDB \<Rightarrow> string \<Rightarrow> string \<Rightarrow> string \<Rightarrow> string \<Rightarrow> string \<Rightarrow> 's \<Rightarrow> error option \<times> 's" where
  "addToSet db table keyAttribute key setAttribute setItem s =
     UpdateItem db
       \<lparr>ExpressionAttributeNames = [''#0'' \<mapsto> setAttribute],
        ExpressionAttributeValues = ['':0'' \<mapsto> AvSS [setItem]],
        Update_Key = [keyAttribute \<mapsto> AvS key],
        Update_TableName = table,
        UpdateExpression = ''ADD #0 :0''\<rparr> s"

definition deleteFromSet ::
  "'s DynamoDB \<Rightarrow> string \<Rightarrow> string \<Rightarrow> string \<Rightarrow> string \<Rightarrow> string \<Rightarrow> 's \<Rightarrow> error option \<times> 's" where
  "deleteFromSet db table keyAttribute key setAttribute setItem s =
     UpdateItem db
       \<lparr>ExpressionAttributeNames = [''#0'' \<mapsto> setAttribute],
        ExpressionAttributeValues = ['':0'' \<mapsto> AvSS [setItem]],
        Update_Key = [keyAttribute \<mapsto> AvS key],
        Update_TableName = table,
        UpdateExpression = ''DELETE #0 :0''\<rparr> s"

definition BookFlight :: "'s Database \<Rightarrow> string \<Rightarrow> string \<Rightarrow> 's \<Rightarrow> (bool \<times> error option) \<times> 's" where
  "BookFlight d flightNumber passengerId s =
     (let (err, s') = addToSet (svc d) ''flights'' ''number'' flightNumber ''passengers'' passengerId s
      in case err of
           Some e \<Rightarrow> ((False, Some e), s')
         | None \<Rightarrow> ((True, None), s'))"

definition CancelBooking :: "'s Database \<Rightarrow> string \<Rightarrow> string \<Rightarrow> 's \<Rightarrow> (bool \<times> error option) \<times> 's" where
  "CancelBooking d flightNumber passengerId s =
     (let (err, s') = deleteFromSet (svc d) ''flights'' ''number'' flightNumber ''passengers'' passengerId s
      in case err of
           Some e \<Rightarrow> ((False, Some e), s')
         | None \<Rightarrow> ((True, None), s'))"

definition GetPassenger ::
  "'s Database \<Rightarrow> string \<Rightarrow> 's \<Rightarrow> (Passenger option \<times> error option) \<times> 's" where
  "GetPassenger d passengerId s =
     (let input = \<lparr>Get_Key = [''id'' \<mapsto> AvS passengerId], Get_TableName = ''passengers''\<rparr>;
          ((dynamoItem, err), s') = GetItem (svc d) input s
      in case err of
           Some e \<Rightarrow> ((None, Some e), s')
         | None \<Rightarrow>
             (case UnmarshalMap_Passenger (Get_Item dynamoItem) of
                Inl e \<Rightarrow> ((None, Some e), s')
              | Inr item \<Rightarrow> ((Some item, None), s')))"

text \<open>
  The loop of \<^verbatim>\<open>convertDynamoFlightToFlight\<close> over the passenger identifiers: \<open>flight\<close> is
  the record under construction, and the first failing lookup returns \<^verbatim>\<open>nil, err\<close>.  The
  function the source calls for a lookup is the parameter \<open>getPassenger\<close>; the pointer it
  returns is appended as it is.
\<close>

fun convertLoop ::
  "(string \<Rightarrow> 's \<Rightarrow> (Passenger option \<times> error option) \<times> 's) \<Rightarrow> string list \<Rightarrow> Flight \<Rightarrow> 's \<Rightarrow>
   (Flight option \<times> error option) \<times> 's" where
  "convertLoop getPassenger [] flight s = ((Some flight, None), s)"
| "convertLoop getPassenger (passengerId # ids) flight s =
     (case getPassenger passengerId s of
        ((passenger, Some e), s') \<Rightarrow> ((None, Some e), s')
      | ((passenger, None), s') \<Rightarrow>
          convertLoop getPassenger ids
            (flight\<lparr>Passengers := Passengers flight @ [passenger]\<rparr>) s')"

definition convertDynamoFlightToFlight ::
  "(string \<Rightarrow> 's \<Rightarrow> (Passenger option \<times> error option) \<times> 's) \<Rightarrow> DynamoFlight \<Rightarrow> 's \<Rightarrow>
   (Flight option \<times> error option) \<times> 's" where
  "convertDynamoFlightToFlight getPassenger dynamoFlight s =
     (let flight = \<lparr>Number = DynamoNumber dynamoFlight,
                    Capacity = DynamoCapacity dynamoFlight,
                    Captain = DynamoCaptain dynamoFlight,
                    Plane = DynamoPlane dynamoFlight,
                    Passengers = []\<rparr>
      in convertLoop getPassenger (DynamoPassengers dynamoFlight) flight s)"

text \<open>
  Modelled from the spec: \<^verbatim>\<open>convertDynamoFlightToFlight\<close> calls a package-level
  \<^verbatim>\<open>GetPassenger(passengerId)\<close>, and \<^verbatim>\<open>src/\<close> declares only the method of that name on
  \<^verbatim>\<open>Database\<close>.  The specification has the join issue the repository's own \<open>getPassenger\<close>
  point lookup for every identifier, so the lookup handed to the conversion below is the
  method on the same database.

  The loop of \<^verbatim>\<open>GetAllFlights\<close> over \<^verbatim>\<open>result.Items\<close>; \<open>flights\<close> is the slice built so
  far (\<^verbatim>\<open>[]*model.Flight\<close>, a nil slice being the empty list).
\<close>

fun flightsLoop ::
  "'s Database \<Rightarrow> Item list \<Rightarrow> Flight option list \<Rightarrow> 's \<Rightarrow>
   (Flight option list \<times> error option) \<times> 's" where
  "flightsLoop d [] flights s = ((flights, None), s)"
| "flightsLoop d (dynamoItem # items) flights s =
     (case UnmarshalMap_DynamoFlight dynamoItem of
        Inl e \<Rightarrow> (([], Some e), s)
      | Inr item \<Rightarrow>
          (case convertDynamoFlightToFlight (GetPassenger d) item s of
             ((flight, Some e), s') \<Rightarrow> (([], Some e), s')
           | ((flight, None), s') \<Rightarrow> flightsLoop d items (flights @ [flight]) s'))"

definition GetAllFlights :: "'s Database \<Rightarrow> 's \<Rightarrow> (Flight option list \<times> error option) \<times> 's" where
  "GetAllFlights d s =
     (let ((result, err), s') = scanTable d ''flights'' s
      in case err of
           Some e \<Rightarrow> (([], Some e), s')
         | None \<Rightarrow> flightsLoop d (Scan_Items result) [] s')"

fun passengersLoop ::
  "Item list \<Rightarrow> Passenger option list \<Rightarrow> Passenger option list \<times> error option" where
  "passengersLoop [] passengers = (passengers, None)"
| "passengersLoop (dynamoItem # items) passengers =
     (case UnmarshalMap_Passenger dynamoItem of
        Inl e \<Rightarrow> ([], Some e)
      | Inr item \<Rightarrow> passengersLoop items (passengers @ [Some item]))"

definition GetAllPassengers ::
  "'s Database \<Rightarrow> 's \<Rightarrow> (Passenger option list \<times> error option) \<times> 's" where
  "GetAllPassengers d s =
     (let ((result, err), s') = scanTable d ''passengers'' s
      in case err of
           Some e \<Rightarrow> (([], Some e), s')
         | None \<Rightarrow> (passengersLoop (Scan_Items result) [], s'))"

section \<open>Recording the requests a client receives\<close>

text \<open>
  To speak about which requests an operation issues, a client is wrapped so that every
  call is appended to a log kept beside the client's own state.  The wrapper changes no
  answer.
\<close>

datatype Request =
    ReqScan ScanInput
  | ReqPutItem PutItemInput
  | ReqDeleteItem DeleteItemInput
  | ReqGetItem GetItemInput
  | ReqUpdateItem UpdateItemInput

definition logged :: "'s DynamoDB \<Rightarrow> (Request list \<times> 's) DynamoDB" where
  "logged db =
     \<lparr>Scan = (\<lambda>inp (log, s). case Scan db inp s of (r, s') \<Rightarrow> (r, (log @ [ReqScan inp], s'))),
      PutItem = (\<lambda>inp (log, s). case PutItem db inp s of (r, s') \<Rightarrow> (r, (log @ [ReqPutItem inp], s'))),
      DeleteItem = (\<lambda>inp (log, s). case DeleteItem db inp s of (r, s') \<Rightarrow> (r, (log @ [ReqDeleteItem inp], s'))),
      GetItem = (\<lambda>inp (log, s). case GetItem db inp s of (r, s') \<Rightarrow> (r, (log @ [ReqGetItem inp], s'))),
      UpdateItem = (\<lambda>inp (log, s). case UpdateItem db inp s of (r, s') \<Rightarrow> (r, (log @ [ReqUpdateItem inp], s')))\<rparr>"

text \<open>The scan requests of a log, and the point lookup that GetPassenger issues.\<close>

fun isScan :: "Request \<Rightarrow> bool" where
  "isScan (ReqScan inp) = True"
| "isScan r = False"

definition lookupRequest :: "string \<Rightarrow> Request" where
  "lookupRequest passengerId =
     ReqGetItem \<lparr>Get_Key = [''id'' \<mapsto> AvS passengerId], Get_TableName = ''passengers''\<rparr>"

section \<open>A reference store\<close>

text \<open>
  Modelled from the spec: the backing store behind the client is a remote service and no
  code of it is under \<^verbatim>\<open>src/\<close>; only the table declarations are
  (\<^verbatim>\<open>src/dynamodb/dynamo.cf-template.yml\<close>: table \<open>flights\<close> with hash key \<open>number\<close>, table
  \<open>passengers\<close> with hash key \<open>id\<close>, both of type string).  The store below follows the
  adapter semantics of the specification: put inserts or replaces the item at the record's
  key; delete removes the item and succeeds also when there was none; get returns the item
  or an empty attribute map; scan returns every item of the table in one response; the
  update expressions \<open>ADD\<close> and \<open>DELETE\<close> on a string-set attribute are set union and set
  difference on one item.  The specification leaves the policy for an update of a missing
  item to the store; it is the field \<open>Upsert\<close> (create the item, or fail; a \<open>DELETE\<close> on a
  missing item creates nothing).  The rows of a table are kept in the order a scan
  returns them, and a string set in the order the store returns it: both orders are
  arbitrary.
\<close>

record Table =
  KeyName :: string
  Rows :: "Item list"

record Store =
  Tables :: "string \<rightharpoonup> Table"
  Upsert :: bool

definition provisioned :: "bool \<Rightarrow> Store" where
  "provisioned upsert =
     \<lparr>Tables = [''flights'' \<mapsto> \<lparr>KeyName = ''number'', Rows = []\<rparr>,
                 ''passengers'' \<mapsto> \<lparr>KeyName = ''id'', Rows = []\<rparr>],
      Upsert = upsert\<rparr>"

definition keyOf :: "Table \<Rightarrow> Item \<Rightarrow> string option" where
  "keyOf t item = (case item (KeyName t) of Some (AvS k) \<Rightarrow> Some k | _ \<Rightarrow> None)"

definition hasKey :: "Table \<Rightarrow> string \<Rightarrow> Item \<Rightarrow> bool" where
  "hasKey t k item = (item (KeyName t) = Some (AvS k))"

definition findRow :: "Table \<Rightarrow> string \<Rightarrow> Item option" where
  "findRow t k = find (hasKey t k) (Rows t)"

definition replaceRow :: "Table \<Rightarrow> string \<Rightarrow> Item \<Rightarrow> Table" where
  "replaceRow t k item = t\<lparr>Rows := map (\<lambda>r. if hasKey t k r then item else r) (Rows t)\<rparr>"

definition setTable :: "Store \<Rightarrow> string \<Rightarrow> Table \<Rightarrow> Store" where
  "setTable st name t = st\<lparr>Tables := (Tables st)(name \<mapsto> t)\<rparr>"

definition noSuchTable :: error where
  "noSuchTable = StoreError ''ResourceNotFoundException''"

definition invalid :: error where
  "invalid = StoreError ''ValidationException''"

definition mem_Scan :: "ScanInput \<Rightarrow> Store \<Rightarrow> (ScanOutput \<times> error option) \<times> Store" where
  "mem_Scan inp st =
     (case Tables st (Scan_TableName inp) of
        None \<Rightarrow> ((\<lparr>Scan_Items = [], Scan_LastEvaluatedKey = Map.empty\<rparr>, Some noSuchTable), st)
      | Some t \<Rightarrow> ((\<lparr>Scan_Items = Rows t, Scan_LastEvaluatedKey = Map.empty\<rparr>, None), st))"

definition mem_PutItem :: "PutItemInput \<Rightarrow> Store \<Rightarrow> error option \<times> Store" where
  "mem_PutItem inp st =
     (case Tables st (Put_TableName inp) of
        None \<Rightarrow> (Some noSuchTable, st)
      | Some t \<Rightarrow>
          (case keyOf t (Put_Item inp) of
             None \<Rightarrow> (Some invalid, st)
           | Some k \<Rightarrow>
               (case findRow t k of
                  None \<Rightarrow>
                    (None, setTable st (Put_TableName inp) (t\<lparr>Rows := Rows t @ [Put_Item inp]\<rparr>))
                | Some r \<Rightarrow>
                    (None, setTable st (Put_TableName inp) (replaceRow t k (Put_Item inp))))))"

definition mem_DeleteItem :: "DeleteItemInput \<Rightarrow> Store \<Rightarrow> error option \<times> Store" where
  "mem_DeleteItem inp st =
     (case Tables st (Delete_TableName inp) of
        None \<Rightarrow> (Some noSuchTable, st)
      | Some t \<Rightarrow>
          (case keyOf t (Delete_Key inp) of
             None \<Rightarrow> (Some invalid, st)
           | Some k \<Rightarrow>
               (None, setTable st (Delete_TableName inp)
                        (t\<lparr>Rows := filter (\<lambda>r. \<not> hasKey t k r) (Rows t)\<rparr>))))"

definition mem_GetItem :: "GetItemInput \<Rightarrow> Store \<Rightarrow> (GetItemOutput \<times> error option) \<times> Store" where
  "mem_GetItem inp st =
     (case Tables st (Get_TableName inp) of
        None \<Rightarrow> ((\<lparr>Get_Item = Map.empty\<rparr>, Some noSuchTable), st)
      | Some t \<Rightarrow>
          (case keyOf t (Get_Key inp) of
             None \<Rightarrow> ((\<lparr>Get_Item = Map.empty\<rparr>, Some invalid), st)
           | Some k \<Rightarrow>
               (case findRow t k of
                  None \<Rightarrow> ((\<lparr>Get_Item = Map.empty\<rparr>, None), st)
                | Some r \<Rightarrow> ((\<lparr>Get_Item = r\<rparr>, None), st))))"

text \<open>The words of an update expression, separated by blanks.\<close>

fun fields :: "string \<Rightarrow> string \<Rightarrow> string list" where
  "fields acc [] = (if acc = [] then [] else [acc])"
| "fields acc (c # cs) =
     (if c = CHR '' '' then (if acc = [] then fields [] cs else acc # fields [] cs)
      else fields (acc @ [c]) cs)"

datatype UpdateAction = ActionADD | ActionDELETE

definition parseAction :: "string \<Rightarrow> UpdateAction option" where
  "parseAction w =
     (if w = ''ADD'' then Some ActionADD
      else if w = ''DELETE'' then Some ActionDELETE else None)"

definition resolveName :: "UpdateItemInput \<Rightarrow> string \<Rightarrow> string option" where
  "resolveName inp w =
     (case w of
        c # cs \<Rightarrow> if c = CHR ''#'' then ExpressionAttributeNames inp w else Some w
      | [] \<Rightarrow> None)"

text \<open>
  An update names one action, one attribute and one operand, the operand a non-empty
  string set without duplicates: the form the data layer issues.  Every other expression
  is refused as invalid.
\<close>

definition parseUpdate :: "UpdateItemInput \<Rightarrow> (UpdateAction \<times> string \<times> string list) option" where
  "parseUpdate inp =
     (case fields [] (UpdateExpression inp) of
        [a, n, v] \<Rightarrow>
          (case parseAction a of
             None \<Rightarrow> None
           | Some act \<Rightarrow>
               (case resolveName inp n of
                  None \<Rightarrow> None
                | Some name \<Rightarrow>
                    (case ExpressionAttributeValues inp v of
                       Some (AvSS xs) \<Rightarrow>
                         if xs \<noteq> [] \<and> distinct xs then Some (act, name, xs) else None
                     | _ \<Rightarrow> None)))
      | _ \<Rightarrow> None)"

text \<open>
  The effect of an action on one item: \<open>None\<close> when the attribute holds a value that is
  not a string set.  A set that becomes empty is removed from the item.
\<close>

definition applyAction :: "UpdateAction \<Rightarrow> string \<Rightarrow> string list \<Rightarrow> Item \<Rightarrow> Item option" where
  "applyAction act name xs row =
     (case row name of
        None \<Rightarrow> (case act of ActionADD \<Rightarrow> Some (row(name \<mapsto> AvSS xs)) | ActionDELETE \<Rightarrow> Some row)
      | Some (AvSS ys) \<Rightarrow>
          (case act of
             ActionADD \<Rightarrow> Some (row(name \<mapsto> AvSS (ys @ filter (\<lambda>x. x \<notin> set ys) xs)))
           | ActionDELETE \<Rightarrow>
               (let zs = filter (\<lambda>y. y \<notin> set xs) ys
                in if zs = [] then Some (row(name := None)) else Some (row(name \<mapsto> AvSS zs))))
      | Some _ \<Rightarrow> None)"

definition mem_UpdateItem :: "UpdateItemInput \<Rightarrow> Store \<Rightarrow> error option \<times> Store" where
  "mem_UpdateItem inp st =
     (case Tables st (Update_TableName inp) of
        None \<Rightarrow> (Some noSuchTable, st)
      | Some t \<Rightarrow>
          (case keyOf t (Update_Key inp) of
             None \<Rightarrow> (Some invalid, st)
           | Some k \<Rightarrow>
               (case parseUpdate inp of
                  None \<Rightarrow> (Some invalid, st)
                | Some (act, name, xs) \<Rightarrow>
                    if name = KeyName t then (Some invalid, st)
                    else
                      (case findRow t k of
                         Some row \<Rightarrow>
                           (case applyAction act name xs row of
                              None \<Rightarrow> (Some invalid, st)
                            | Some row' \<Rightarrow>
                                (None, setTable st (Update_TableName inp) (replaceRow t k row')))
                       | None \<Rightarrow>
                           if \<not> Upsert st then (Some (StoreError ''item not found''), st)
                           else
                             (case act of
                                ActionADD \<Rightarrow>
                                  (None, setTable st (Update_TableName inp)
                                     (t\<lparr>Rows := Rows t @ [[KeyName t \<mapsto> AvS k, name \<mapsto> AvSS xs]]\<rparr>))
                              | ActionDELETE \<Rightarrow> (None, st))))))"

definition mem :: "Store DynamoDB" where
  "mem = \<lparr>Scan = mem_Scan, PutItem = mem_PutItem, DeleteItem = mem_DeleteItem,
          GetItem = mem_GetItem, UpdateItem = mem_UpdateItem\<rparr>"

definition memDb :: "Store Database" where
  "memDb = \<lparr>svc = mem\<rparr>"

text \<open>The passenger identifiers a flight holds in the store, and the row of a passenger.\<close>

definition idsOf :: "Item \<Rightarrow> string list" where
  "idsOf row = (case row ''passengers'' of Some (AvSS xs) \<Rightarrow> xs | _ \<Rightarrow> [])"

definition passengerIds :: "Store \<Rightarrow> string \<Rightarrow> string list" where
  "passengerIds st flightNumber =
     (case Tables st ''flights'' of
        None \<Rightarrow> []
      | Some t \<Rightarrow> (case findRow t flightNumber of None \<Rightarrow> [] | Some row \<Rightarrow> idsOf row))"

definition passengerRow :: "Store \<Rightarrow> string \<Rightarrow> Item" where
  "passengerRow st passengerId =
     (case Tables st ''passengers'' of
        None \<Rightarrow> Map.empty
      | Some t \<Rightarrow> (case findRow t passengerId of None \<Rightarrow> Map.empty | Some row \<Rightarrow> row))"

text \<open>
  The passenger record the table \<open>passengers\<close> of a store holds for an identifier: the
  decoded row (the zero-valued record when there is no row), \<open>None\<close> when the row does not
  decode.
\<close>

definition storedPassenger :: "Store \<Rightarrow> string \<Rightarrow> Passenger option" where
  "storedPassenger st passengerId =
     (case UnmarshalMap_Passenger (passengerRow st passengerId) of
        Inl e \<Rightarrow> None
      | Inr p \<Rightarrow> Some p)"

text \<open>
  The answer of the reference store to the update that BookFlight and CancelBooking
  issue, with the request already decoded.
\<close>

definition setUpdate :: "UpdateAction \<Rightarrow> string \<Rightarrow> string \<Rightarrow> Store \<Rightarrow> error option \<times> Store" where
  "setUpdate act flightNumber passengerId st =
     (case Tables st ''flights'' of
        None \<Rightarrow> (Some noSuchTable, st)
      | Some t \<Rightarrow>
          if KeyName t \<noteq> ''number'' then (Some invalid, st)
          else
            (case findRow t flightNumber of
               Some row \<Rightarrow>
                 (case applyAction act ''passengers'' [passengerId] row of
                    None \<Rightarrow> (Some invalid, st)
                  | Some row' \<Rightarrow> (None, setTable st ''flights'' (replaceRow t flightNumber row')))
             | None \<Rightarrow>
                 if \<not> Upsert st then (Some (StoreError ''item not found''), st)
                 else
                   (case act of
                      ActionADD \<Rightarrow>
                        (None, setTable st ''flights''
                           (t\<lparr>Rows := Rows t @ [[''number'' \<mapsto> AvS flightNumber,
                                                  ''passengers'' \<mapsto> AvSS [passengerId]]]\<rparr>))
                    | ActionDELETE \<Rightarrow> (None, st))))"

text \<open>
  A store whose flights table is keyed by \<open>number\<close> and holds \<open>row\<close> for the flight,
  every row of that key being \<open>row\<close> itself: the state an update of the flight leaves
  behind.
\<close>

definition settled :: "Store \<Rightarrow> string \<Rightarrow> Item \<Rightarrow> bool" where
  "settled st f row =
     (case Tables st ''flights'' of
        None \<Rightarrow> False
      | Some t \<Rightarrow> KeyName t = ''number'' \<and> findRow t f = Some row \<and> replaceRow t f row = t)"

text \<open>
  The reference store behind a client that answers a scan with pages of at most \<open>n\<close>
  items and, when items remain, the key of the last item it returned.
\<close>

definition paged :: "nat \<Rightarrow> Store DynamoDB" where
  "paged n =
     \<lparr>Scan = (\<lambda>inp st.
               case mem_Scan inp st of
                 ((out, err), st') \<Rightarrow>
                   ((\<lparr>Scan_Items = take n (Scan_Items out),
                      Scan_LastEvaluatedKey =
                        (if n < length (Scan_Items out) \<and> 0 < n
                         then (\<lambda>a. if a = (case Tables st (Scan_TableName inp) of
                                                None \<Rightarrow> '''' | Some t \<Rightarrow> KeyName t)
                                    then (Scan_Items out ! (n - 1)) a else None)
                         else Map.empty)\<rparr>, err), st')),
      PutItem = mem_PutItem, DeleteItem = mem_DeleteItem,
      GetItem = mem_GetItem, UpdateItem = mem_UpdateItem\<rparr>"

section \<open>Sample data\<close>

text \<open>
  A store with the two tables of the template and one pre-seeded flight that has no
  passengers yet and a capacity of zero; the passengers table is empty.
\<close>

definition flightBA100 :: Item where
  "flightBA100 =
     [''number'' \<mapsto> AvS ''BA100'', ''capacity'' \<mapsto> AvN ''0'',
      ''captain'' \<mapsto> AvS ''Kirk'', ''plane'' \<mapsto> AvS ''A320'']"

definition seeded :: "bool \<Rightarrow> Store" where
  "seeded upsert =
     \<lparr>Tables = [''flights'' \<mapsto> \<lparr>KeyName = ''number'', Rows = [flightBA100]\<rparr>,
                 ''passengers'' \<mapsto> \<lparr>KeyName = ''id'', Rows = []\<rparr>],
      Upsert = upsert\<rparr>"

text \<open>A random source that returns one fixed identifier, and the passenger it gives.\<close>

definition sampleUUID :: UUID where
  "sampleUUID =
     [0x12, 0x34, 0x56, 0x78, 0x9a, 0xbc, 0x4d, 0xef,
      0x80, 0x01, 0x02, 0x03, 0x04, 0x05, 0x06, 0x07]"

definition fixedSource :: "Store \<Rightarrow> UUID option \<times> Store" where
  "fixedSource st = (Some sampleUUID, st)"

definition alice :: Passenger where
  "alice = \<lparr>ID = ''12345678-9abc-4def-8001-020304050607'', Name = ''Alice''\<rparr>"


text \<open>
  A store with the given rows in its two tables, and the rows used below: two passengers,
  a flight that holds both, and three rows that do not decode or do not expand.
\<close>

definition sample :: "Item list \<Rightarrow> Item list \<Rightarrow> Store" where
  "sample flightRows passengerRows =
     \<lparr>Tables = [''flights'' \<mapsto> \<lparr>KeyName = ''number'', Rows = flightRows\<rparr>,
                 ''passengers'' \<mapsto> \<lparr>KeyName = ''id'', Rows = passengerRows\<rparr>],
      Upsert = True\<rparr>"

definition ann :: Item where
  "ann = [''id'' \<mapsto> AvS ''p1'', ''name'' \<mapsto> AvS ''Ann'']"

definition bob :: Item where
  "bob = [''id'' \<mapsto> AvS ''p2'', ''name'' \<mapsto> AvS ''Bob'']"

definition flightBooked :: Item where
  "flightBooked =
     [''number'' \<mapsto> AvS ''BA100'', ''capacity'' \<mapsto> AvN ''2'',
      ''captain'' \<mapsto> AvS ''Kirk'', ''plane'' \<mapsto> AvS ''A320'',
      ''passengers'' \<mapsto> AvSS [''p2'', ''p1'']]"

definition badPassenger :: Item where
  "badPassenger = [''id'' \<mapsto> AvS ''p3'', ''name'' \<mapsto> AvBOOL True]"

definition badFlight :: Item where
  "badFlight = [''number'' \<mapsto> AvS ''LH400'', ''capacity'' \<mapsto> AvS ''many'']"

definition flightWithBad :: Item where
  "flightWithBad = [''number'' \<mapsto> AvS ''AF1'', ''passengers'' \<mapsto> AvSS [''p1'', ''p3'']]"

section \<open>Basic facts\<close>

lemma svc_memDb: "svc memDb = mem"
  by (simp add: memDb_def)

lemma mem_sel:
  "Scan mem = mem_Scan" "PutItem mem = mem_PutItem" "DeleteItem mem = mem_DeleteItem"
  "GetItem mem = mem_GetItem" "UpdateItem mem = mem_UpdateItem"
  by (simp_all add: mem_def)

lemma logged_sel:
  "Scan (logged db) inp (log, s) =
     (fst (Scan db inp s), (log @ [ReqScan inp], snd (Scan db inp s)))"
  "PutItem (logged db) pinp (log, s) =
     (fst (PutItem db pinp s), (log @ [ReqPutItem pinp], snd (PutItem db pinp s)))"
  "DeleteItem (logged db) dinp (log, s) =
     (fst (DeleteItem db dinp s), (log @ [ReqDeleteItem dinp], snd (DeleteItem db dinp s)))"
  "GetItem (logged db) ginp (log, s) =
     (fst (GetItem db ginp s), (log @ [ReqGetItem ginp], snd (GetItem db ginp s)))"
  "UpdateItem (logged db) uinp (log, s) =
     (fst (UpdateItem db uinp s), (log @ [ReqUpdateItem uinp], snd (UpdateItem db uinp s)))"
  by (simp_all add: logged_def split: prod.split)

lemma DeletePassenger_eq:
  "DeletePassenger d passengerId s =
     ((case fst (DeleteItem (svc d)
                  \<lparr>Delete_Key = [''id'' \<mapsto> AvS passengerId], Delete_TableName = ''passengers''\<rparr> s) of
         None \<Rightarrow> (True, None) | Some e \<Rightarrow> (False, Some e)),
      snd (DeleteItem (svc d)
             \<lparr>Delete_Key = [''id'' \<mapsto> AvS passengerId], Delete_TableName = ''passengers''\<rparr> s))"
  by (simp add: DeletePassenger_def Let_def split: prod.split option.split)

lemma BookFlight_eq:
  "BookFlight d flightNumber passengerId s =
     ((case fst (addToSet (svc d) ''flights'' ''number'' flightNumber ''passengers'' passengerId s) of
         None \<Rightarrow> (True, None) | Some e \<Rightarrow> (False, Some e)),
      snd (addToSet (svc d) ''flights'' ''number'' flightNumber ''passengers'' passengerId s))"
  by (simp add: BookFlight_def split: prod.split option.split)

lemma CancelBooking_eq:
  "CancelBooking d flightNumber passengerId s =
     ((case fst (deleteFromSet (svc d) ''flights'' ''number'' flightNumber ''passengers'' passengerId s) of
         None \<Rightarrow> (True, None) | Some e \<Rightarrow> (False, Some e)),
      snd (deleteFromSet (svc d) ''flights'' ''number'' flightNumber ''passengers'' passengerId s))"
  by (simp add: CancelBooking_def split: prod.split option.split)

lemma mem_delete_ok:
  "Tables st ''passengers'' = Some t \<Longrightarrow> KeyName t = ''id'' \<Longrightarrow>
   fst (mem_DeleteItem
          \<lparr>Delete_Key = [''id'' \<mapsto> AvS passengerId], Delete_TableName = ''passengers''\<rparr> st) = None"
  by (simp add: mem_DeleteItem_def keyOf_def)

section \<open>Boolean results\<close>

text \<open>
  Claim C10.  Each of the three operations that return a boolean (DeletePassenger,
  BookFlight, CancelBooking) returns \<open>true\<close> exactly when the error it returns is nil, for
  every client, state and argument: the pairs (true, error) and (false, nil) do not
  occur.
\<close>

theorem bool_result_mirrors_error:
  "(fst (fst (DeletePassenger d passengerId s)) \<longleftrightarrow>
      snd (fst (DeletePassenger d passengerId s)) = None) \<and>
   (fst (fst (BookFlight d flightNumber passengerId s)) \<longleftrightarrow>
      snd (fst (BookFlight d flightNumber passengerId s)) = None) \<and>
   (fst (fst (CancelBooking d flightNumber passengerId s)) \<longleftrightarrow>
      snd (fst (CancelBooking d flightNumber passengerId s)) = None)"
  by (simp add: DeletePassenger_eq BookFlight_eq CancelBooking_eq split: option.split)

theorem bool_result_mirrors_error_witness:
  "fst (DeletePassenger memDb ''p1'' (provisioned True)) = (True, None) \<and>
   fst (BookFlight memDb ''BA100'' ''p1'' (provisioned False)) =
     (False, Some (StoreError ''item not found'')) \<and>
   fst (CancelBooking memDb ''BA100'' ''p1'' (provisioned True)) = (True, None)"
  using bool_result_mirrors_error [of memDb "''p1''" "provisioned True" "''BA100''"]
  by (simp add: DeletePassenger_def BookFlight_def CancelBooking_def addToSet_def
      deleteFromSet_def svc_memDb mem_sel mem_DeleteItem_def mem_UpdateItem_def
      provisioned_def keyOf_def parseUpdate_def parseAction_def resolveName_def
      findRow_def setTable_def)

section \<open>Deleting a passenger\<close>

text \<open>
  Claim C7.  DeletePassenger issues one DeleteItem request for the key \<open>id\<close> in the table
  \<open>passengers\<close> and nothing else, so it never looks whether the item exists; it reports
  (true, nil) when that call returns no error and (false, e) when the call fails with \<open>e\<close>.
  On the reference store, whose delete succeeds whether or not an item was there, it
  reports success for every identifier.
\<close>

theorem DeletePassenger_reports_store_result:
  "fst (DeletePassenger d passengerId s) =
     (case fst (DeleteItem (svc d)
                  \<lparr>Delete_Key = [''id'' \<mapsto> AvS passengerId], Delete_TableName = ''passengers''\<rparr> s) of
        None \<Rightarrow> (True, None) | Some e \<Rightarrow> (False, Some e)) \<and>
   fst (snd (DeletePassenger \<lparr>svc = logged db\<rparr> passengerId ([], s0))) =
     [ReqDeleteItem \<lparr>Delete_Key = [''id'' \<mapsto> AvS passengerId],
                     Delete_TableName = ''passengers''\<rparr>] \<and>
   (Tables st ''passengers'' = Some t \<and> KeyName t = ''id'' \<longrightarrow>
      fst (DeletePassenger memDb passengerId st) = (True, None))"
proof (intro conjI impI)
  show "fst (DeletePassenger d passengerId s) =
     (case fst (DeleteItem (svc d)
                  \<lparr>Delete_Key = [''id'' \<mapsto> AvS passengerId], Delete_TableName = ''passengers''\<rparr> s) of
        None \<Rightarrow> (True, None) | Some e \<Rightarrow> (False, Some e))"
    by (simp add: DeletePassenger_eq)
  show "fst (snd (DeletePassenger \<lparr>svc = logged db\<rparr> passengerId ([], s0))) =
     [ReqDeleteItem \<lparr>Delete_Key = [''id'' \<mapsto> AvS passengerId],
                     Delete_TableName = ''passengers''\<rparr>]"
    by (simp add: DeletePassenger_eq logged_sel)
  assume "Tables st ''passengers'' = Some t \<and> KeyName t = ''id''"
  then show "fst (DeletePassenger memDb passengerId st) = (True, None)"
    by (simp add: DeletePassenger_eq svc_memDb mem_sel mem_delete_ok)
qed

theorem DeletePassenger_reports_store_result_witness:
  "Tables (seeded True) ''passengers'' = Some \<lparr>KeyName = ''id'', Rows = []\<rparr> \<and>
   KeyName \<lparr>KeyName = ''id'', Rows = []\<rparr> = ''id'' \<and>
   findRow \<lparr>KeyName = ''id'', Rows = []\<rparr> ''nobody'' = None \<and>
   fst (DeletePassenger memDb ''nobody'' (seeded True)) = (True, None)"
proof -
  have h: "Tables (seeded True) ''passengers'' = Some \<lparr>KeyName = ''id'', Rows = []\<rparr> \<and>
           KeyName \<lparr>KeyName = ''id'', Rows = []\<rparr> = ''id''"
    by (simp add: seeded_def)
  have "fst (DeletePassenger memDb ''nobody'' (seeded True)) = (True, None)"
    using DeletePassenger_reports_store_result
            [of memDb "''nobody''" "seeded True" mem "seeded True" "seeded True"
                "\<lparr>KeyName = ''id'', Rows = []\<rparr>"] h
    by blast
  with h show ?thesis by (simp add: findRow_def)
qed

section \<open>Booking\<close>

lemma parseUpdate_add:
  "parseUpdate \<lparr>ExpressionAttributeNames = [''#0'' \<mapsto> a], ExpressionAttributeValues = ['':0'' \<mapsto> AvSS [x]],
      Update_Key = k, Update_TableName = t, UpdateExpression = ''ADD #0 :0''\<rparr> = Some (ActionADD, a, [x])"
  by (simp add: parseUpdate_def parseAction_def resolveName_def)

lemma parseUpdate_delete:
  "parseUpdate \<lparr>ExpressionAttributeNames = [''#0'' \<mapsto> a], ExpressionAttributeValues = ['':0'' \<mapsto> AvSS [x]],
      Update_Key = k, Update_TableName = t, UpdateExpression = ''DELETE #0 :0''\<rparr> = Some (ActionDELETE, a, [x])"
  by (simp add: parseUpdate_def parseAction_def resolveName_def)

lemma mem_addToSet:
  "addToSet mem ''flights'' ''number'' f ''passengers'' p st = setUpdate ActionADD f p st"
  by (simp add: addToSet_def mem_sel mem_UpdateItem_def parseUpdate_add setUpdate_def keyOf_def
      split: option.split)

lemma mem_deleteFromSet:
  "deleteFromSet mem ''flights'' ''number'' f ''passengers'' p st = setUpdate ActionDELETE f p st"
  by (simp add: deleteFromSet_def mem_sel mem_UpdateItem_def parseUpdate_delete setUpdate_def keyOf_def
      split: option.split)

text \<open>
  Claim C8.  BookFlight issues one UpdateItem request (the set-add on the attribute
  \<open>passengers\<close> of the flight) and no other request: it reads neither the flight nor
  the passenger nor the capacity.  Its result is (true, nil) when that call returns no
  error and (false, e) when the call fails with \<open>e\<close>.  On the reference store a booking
  on an existing flight succeeds whatever the capacity and whether or not the passenger
  exists.
\<close>

theorem BookFlight_no_verification:
  "fst (snd (BookFlight \<lparr>svc = logged db\<rparr> flightNumber passengerId ([], s0))) =
     [ReqUpdateItem
        \<lparr>ExpressionAttributeNames = [''#0'' \<mapsto> ''passengers''],
         ExpressionAttributeValues = ['':0'' \<mapsto> AvSS [passengerId]],
         Update_Key = [''number'' \<mapsto> AvS flightNumber],
         Update_TableName = ''flights'',
         UpdateExpression = ''ADD #0 :0''\<rparr>] \<and>
   BookFlight d flightNumber passengerId s =
     ((case fst (UpdateItem (svc d)
                  \<lparr>ExpressionAttributeNames = [''#0'' \<mapsto> ''passengers''],
                   ExpressionAttributeValues = ['':0'' \<mapsto> AvSS [passengerId]],
                   Update_Key = [''number'' \<mapsto> AvS flightNumber],
                   Update_TableName = ''flights'',
                   UpdateExpression = ''ADD #0 :0''\<rparr> s) of
         None \<Rightarrow> (True, None) | Some e \<Rightarrow> (False, Some e)),
      snd (UpdateItem (svc d)
             \<lparr>ExpressionAttributeNames = [''#0'' \<mapsto> ''passengers''],
              ExpressionAttributeValues = ['':0'' \<mapsto> AvSS [passengerId]],
              Update_Key = [''number'' \<mapsto> AvS flightNumber],
              Update_TableName = ''flights'',
              UpdateExpression = ''ADD #0 :0''\<rparr> s)) \<and>
   (Tables st ''flights'' = Some t \<and> KeyName t = ''number'' \<and> findRow t flightNumber = Some row \<and>
    row ''passengers'' = None \<longrightarrow>
      fst (BookFlight memDb flightNumber passengerId st) = (True, None))"
proof (intro conjI impI)
  show "fst (snd (BookFlight \<lparr>svc = logged db\<rparr> flightNumber passengerId ([], s0))) =
     [ReqUpdateItem
        \<lparr>ExpressionAttributeNames = [''#0'' \<mapsto> ''passengers''],
         ExpressionAttributeValues = ['':0'' \<mapsto> AvSS [passengerId]],
         Update_Key = [''number'' \<mapsto> AvS flightNumber],
         Update_TableName = ''flights'',
         UpdateExpression = ''ADD #0 :0''\<rparr>]"
    by (simp add: BookFlight_eq addToSet_def logged_sel)
  show "BookFlight d flightNumber passengerId s =
     ((case fst (UpdateItem (svc d)
                  \<lparr>ExpressionAttributeNames = [''#0'' \<mapsto> ''passengers''],
                   ExpressionAttributeValues = ['':0'' \<mapsto> AvSS [passengerId]],
                   Update_Key = [''number'' \<mapsto> AvS flightNumber],
                   Update_TableName = ''flights'',
                   UpdateExpression = ''ADD #0 :0''\<rparr> s) of
         None \<Rightarrow> (True, None) | Some e \<Rightarrow> (False, Some e)),
      snd (UpdateItem (svc d)
             \<lparr>ExpressionAttributeNames = [''#0'' \<mapsto> ''passengers''],
              ExpressionAttributeValues = ['':0'' \<mapsto> AvSS [passengerId]],
              Update_Key = [''number'' \<mapsto> AvS flightNumber],
              Update_TableName = ''flights'',
              UpdateExpression = ''ADD #0 :0''\<rparr> s))"
    by (simp add: BookFlight_eq addToSet_def)
  assume "Tables st ''flights'' = Some t \<and> KeyName t = ''number'' \<and> findRow t flightNumber = Some row \<and>
    row ''passengers'' = None"
  then show "fst (BookFlight memDb flightNumber passengerId st) = (True, None)"
    by (simp add: BookFlight_eq svc_memDb mem_addToSet setUpdate_def applyAction_def)
qed

theorem BookFlight_no_verification_witness:
  "Tables (seeded False) ''flights'' = Some \<lparr>KeyName = ''number'', Rows = [flightBA100]\<rparr> \<and>
   KeyName \<lparr>KeyName = ''number'', Rows = [flightBA100]\<rparr> = ''number'' \<and>
   findRow \<lparr>KeyName = ''number'', Rows = [flightBA100]\<rparr> ''BA100'' = Some flightBA100 \<and>
   flightBA100 ''passengers'' = None \<and>
   flightBA100 ''capacity'' = Some (AvN ''0'') \<and>
   passengerRow (seeded False) ''nobody'' = Map.empty \<and>
   fst (BookFlight memDb ''BA100'' ''nobody'' (seeded False)) = (True, None)"
proof -
  have h: "Tables (seeded False) ''flights'' = Some \<lparr>KeyName = ''number'', Rows = [flightBA100]\<rparr> \<and>
   KeyName \<lparr>KeyName = ''number'', Rows = [flightBA100]\<rparr> = ''number'' \<and>
   findRow \<lparr>KeyName = ''number'', Rows = [flightBA100]\<rparr> ''BA100'' = Some flightBA100 \<and>
   flightBA100 ''passengers'' = None"
    by (simp add: seeded_def findRow_def hasKey_def flightBA100_def)
  have "fst (BookFlight memDb ''BA100'' ''nobody'' (seeded False)) = (True, None)"
    using BookFlight_no_verification
            [of mem "''BA100''" "''nobody''" "seeded False" memDb "seeded False" "seeded False"
                "\<lparr>KeyName = ''number'', Rows = [flightBA100]\<rparr>" flightBA100] h
    by blast
  moreover have "flightBA100 ''capacity'' = Some (AvN ''0'')"
    by (simp add: flightBA100_def)
  moreover have "passengerRow (seeded False) ''nobody'' = Map.empty"
    by (simp add: passengerRow_def seeded_def findRow_def)
  ultimately show ?thesis using h by simp
qed

section \<open>The reference store under set updates\<close>

lemma hasKey_Rows_update [simp]: "hasKey (t\<lparr>Rows := rs\<rparr>) = hasKey t"
  by (simp add: hasKey_def fun_eq_iff)

lemma hasKey_replaceRow [simp]: "hasKey (replaceRow t k r) = hasKey t"
  by (simp add: replaceRow_def)

lemma KeyName_replaceRow [simp]: "KeyName (replaceRow t k r) = KeyName t"
  by (simp add: replaceRow_def)

lemma find_map_replace:
  "P r' \<Longrightarrow> find P rows = Some r \<Longrightarrow> find P (map (\<lambda>x. if P x then r' else x) rows) = Some r'"
  by (induction rows) (auto split: if_splits)

lemma findRow_replaceRow:
  "hasKey t k r' \<Longrightarrow> findRow t k = Some r \<Longrightarrow> findRow (replaceRow t k r') k = Some r'"
  unfolding findRow_def hasKey_replaceRow
  by (simp add: replaceRow_def find_map_replace)

lemma map_replace_twice:
  "P r' \<Longrightarrow> map (\<lambda>x. if P x then r' else x) (map (\<lambda>x. if P x then r' else x) rows) =
     map (\<lambda>x. if P x then r' else x) rows"
  by (induction rows) auto

lemma replaceRow_twice:
  "hasKey t k r' \<Longrightarrow> replaceRow (replaceRow t k r') k r' = replaceRow t k r'"
  by (simp add: replaceRow_def map_replace_twice)

lemma find_None_replace:
  "find P rows = None \<Longrightarrow> map (\<lambda>x. if P x then r' else x) rows = rows"
  by (induction rows) (auto split: if_splits)

lemma find_append_new:
  "find P rows = None \<Longrightarrow> P r \<Longrightarrow> find P (rows @ [r]) = Some r"
  by (induction rows) (auto split: if_splits)

lemma Tables_setTable [simp]: "Tables (setTable st n t) n = Some t"
  by (simp add: setTable_def)

lemma Upsert_setTable [simp]: "Upsert (setTable st n t) = Upsert st"
  by (simp add: setTable_def)

lemma setTable_same: "Tables st n = Some t \<Longrightarrow> setTable st n t = st"
  by (simp add: setTable_def map_upd_triv)

lemma findRow_hasKey: "findRow t k = Some r \<Longrightarrow> hasKey t k r"
  by (auto simp: findRow_def dest: find_Some_iff[THEN iffD1])

lemma applyAction_hasKey:
  "applyAction act name xs row = Some row' \<Longrightarrow> name \<noteq> KeyName t \<Longrightarrow> hasKey t k row \<Longrightarrow> hasKey t k row'"
  by (auto simp: applyAction_def hasKey_def Let_def split: option.splits AttributeValue.splits UpdateAction.splits if_splits)

lemma applyAction_again:
  "applyAction act name [x] row = Some row' \<Longrightarrow> applyAction act name [x] row' = Some row'"
  apply (cases act)
   apply (auto simp: applyAction_def Let_def map_upd_triv fun_upd_idem split: option.splits AttributeValue.splits if_splits)
  done

lemma settled_fixpoint:
  "settled st f row \<Longrightarrow> applyAction act ''passengers'' [p] row = Some row \<Longrightarrow>
   setUpdate act f p st = (None, st)"
  by (auto simp: settled_def setUpdate_def setTable_same split: option.splits)

lemma settled_passengerIds:
  "settled st f row \<Longrightarrow>
   passengerIds st f = idsOf row"
  by (auto simp: settled_def passengerIds_def split: option.splits)

lemma setUpdate_settles:
  assumes "setUpdate act f p st = (None, st')" and "act = ActionADD \<or> passengerIds st f \<noteq> []"
  shows "\<exists>row row0. settled st' f row \<and> applyAction act ''passengers'' [p] row0 = Some row
           \<and> idsOf row0 = passengerIds st f"
proof -
  from assms(1) obtain t where t: "Tables st ''flights'' = Some t" "KeyName t = ''number''"
    by (auto simp: setUpdate_def split: option.splits if_splits)
  show ?thesis
  proof (cases "findRow t f")
    case (Some row0)
    with assms(1) t obtain row where row: "applyAction act ''passengers'' [p] row0 = Some row"
      and st': "st' = setTable st ''flights'' (replaceRow t f row)"
      by (auto simp: setUpdate_def split: option.splits)
    have hk: "hasKey t f row"
      using applyAction_hasKey[OF row, of t f] t findRow_hasKey[OF Some] by simp
    have "settled st' f row"
      unfolding settled_def st'
      using t hk Some by (simp add: findRow_replaceRow replaceRow_twice)
    moreover have "idsOf row0 = passengerIds st f"
      using t Some by (simp add: passengerIds_def)
    ultimately show ?thesis using row by blast
  next
    case None
    then have ids: "passengerIds st f = []" using t by (simp add: passengerIds_def)
    with assms(2) have act: "act = ActionADD" by simp
    let ?new = "[''number'' \<mapsto> AvS f, ''passengers'' \<mapsto> AvSS [p]]"
    let ?row0 = "[''number'' \<mapsto> AvS f]"
    from assms(1) t None act
    have st': "st' = setTable st ''flights'' (t\<lparr>Rows := Rows t @ [?new]\<rparr>)"
      by (auto simp: setUpdate_def split: if_splits)
    have hk: "hasKey t f ?new" using t by (simp add: hasKey_def)
    have f1: "findRow (t\<lparr>Rows := Rows t @ [?new]\<rparr>) f = Some ?new"
      using None hk by (simp add: findRow_def find_append_new)
    have f2: "replaceRow (t\<lparr>Rows := Rows t @ [?new]\<rparr>) f ?new = t\<lparr>Rows := Rows t @ [?new]\<rparr>"
      using None hk by (simp add: replaceRow_def findRow_def find_None_replace)
    have "settled st' f ?new"
      unfolding settled_def st' using t f1 f2 by simp
    moreover have "applyAction act ''passengers'' [p] ?row0 = Some ?new"
      using act by (simp add: applyAction_def fun_upd_twist)
    moreover have "idsOf ?row0 = passengerIds st f"
      using ids by (simp add: idsOf_def)
    ultimately show ?thesis by blast
  qed
qed


lemma setUpdate_fail: "fst (setUpdate act f p st) = Some e \<Longrightarrow> snd (setUpdate act f p st) = st"
  by (auto simp: setUpdate_def split: option.splits if_splits UpdateAction.splits)

lemma settled_succeeds:
  "settled st f row \<Longrightarrow> applyAction act ''passengers'' [p] row = Some row' \<Longrightarrow>
   fst (setUpdate act f p st) = None"
  by (auto simp: settled_def setUpdate_def split: option.splits)

lemma applyAction_ADD_ids:
  "applyAction ActionADD ''passengers'' [p] row0 = Some row \<Longrightarrow>
   idsOf row = idsOf row0 @ (if p \<in> set (idsOf row0) then [] else [p])"
  by (auto simp: applyAction_def idsOf_def split: option.splits AttributeValue.splits)

lemma applyAction_DELETE_ids:
  "applyAction ActionDELETE ''passengers'' [p] row0 = Some row \<Longrightarrow>
   idsOf row = filter (\<lambda>y. y \<noteq> p) (idsOf row0)"
  by (auto simp: applyAction_def idsOf_def Let_def split: option.splits AttributeValue.splits if_splits)

lemma applyAction_DELETE_defined:
  "idsOf row \<noteq> [] \<Longrightarrow> \<exists>row'. applyAction ActionDELETE ''passengers'' [p] row = Some row'"
  by (auto simp: applyAction_def idsOf_def Let_def split: option.splits AttributeValue.splits)

lemmas eval_book = BookFlight_eq CancelBooking_eq svc_memDb mem_addToSet mem_deleteFromSet
  setUpdate_def seeded_def findRow_def hasKey_def flightBA100_def applyAction_def
  passengerIds_def setTable_def replaceRow_def idsOf_def

section \<open>Booking twice, cancelling twice\<close>

text \<open>
  Claim C3.  On the reference store BookFlight is idempotent for every flight number,
  passenger identifier and store state: a second call with the same arguments returns
  what the first returned and leaves the whole store as the first call left it.  A
  successful booking adds the identifier to the flight's set, and booking an identifier
  that is already in the set leaves the set as it is.
\<close>

theorem BookFlight_idempotent:
  "BookFlight memDb flightNumber passengerId (snd (BookFlight memDb flightNumber passengerId st)) =
     BookFlight memDb flightNumber passengerId st \<and>
   (fst (BookFlight memDb flightNumber passengerId st) = (True, None) \<longrightarrow>
      set (passengerIds (snd (BookFlight memDb flightNumber passengerId st)) flightNumber) =
        insert passengerId (set (passengerIds st flightNumber))) \<and>
   (passengerId \<in> set (passengerIds st flightNumber) \<longrightarrow>
      passengerIds (snd (BookFlight memDb flightNumber passengerId st)) flightNumber =
        passengerIds st flightNumber)"
proof -
  let ?u = "setUpdate ActionADD flightNumber passengerId"
  have book: "\<And>s. BookFlight memDb flightNumber passengerId s =
      ((case fst (?u s) of None \<Rightarrow> (True, None) | Some e \<Rightarrow> (False, Some e)), snd (?u s))"
    by (simp add: BookFlight_eq svc_memDb mem_addToSet)
  show ?thesis
  proof (cases "fst (?u st)")
    case (Some e)
    then have "snd (?u st) = st" by (rule setUpdate_fail)
    with Some show ?thesis by (simp add: book)
  next
    case None
    then have u: "?u st = (None, snd (?u st))" by (simp add: prod_eq_iff)
    from setUpdate_settles[OF u] obtain row row0 where
      s: "settled (snd (?u st)) flightNumber row"
      and a: "applyAction ActionADD ''passengers'' [passengerId] row0 = Some row"
      and i: "idsOf row0 = passengerIds st flightNumber"
      by blast
    have again: "?u (snd (?u st)) = (None, snd (?u st))"
      using settled_fixpoint[OF s applyAction_again[OF a]] .
    have ids: "passengerIds (snd (?u st)) flightNumber =
        passengerIds st flightNumber @
          (if passengerId \<in> set (passengerIds st flightNumber) then [] else [passengerId])"
      using settled_passengerIds[OF s] applyAction_ADD_ids[OF a] i by simp
    show ?thesis using None again ids by (auto simp: book)
  qed
qed

theorem BookFlight_idempotent_witness:
  "fst (BookFlight memDb ''BA100'' ''p1'' (seeded False)) = (True, None) \<and>
   passengerIds (seeded False) ''BA100'' = [] \<and>
   set (passengerIds (snd (BookFlight memDb ''BA100'' ''p1'' (seeded False))) ''BA100'') = {''p1''} \<and>
   BookFlight memDb ''BA100'' ''p1'' (snd (BookFlight memDb ''BA100'' ''p1'' (seeded False))) =
     BookFlight memDb ''BA100'' ''p1'' (seeded False) \<and>
   ''p1'' \<in> set (passengerIds (snd (BookFlight memDb ''BA100'' ''p1'' (seeded False))) ''BA100'') \<and>
   passengerIds (snd (BookFlight memDb ''BA100'' ''p1''
                       (snd (BookFlight memDb ''BA100'' ''p1'' (seeded False))))) ''BA100'' =
     passengerIds (snd (BookFlight memDb ''BA100'' ''p1'' (seeded False))) ''BA100''"
proof -
  have h1: "fst (BookFlight memDb ''BA100'' ''p1'' (seeded False)) = (True, None)"
    by (simp add: eval_book)
  have h2: "passengerIds (seeded False) ''BA100'' = []"
    by (simp add: eval_book)
  have h3: "''p1'' \<in> set (passengerIds (snd (BookFlight memDb ''BA100'' ''p1'' (seeded False))) ''BA100'')"
    by (simp add: eval_book)
  show ?thesis
    using h1 h2 h3
      BookFlight_idempotent [of "''BA100''" "''p1''" "seeded False"]
      BookFlight_idempotent [of "''BA100''" "''p1''" "snd (BookFlight memDb ''BA100'' ''p1'' (seeded False))"]
    by simp
qed

text \<open>
  Claim C4.  On the reference store, after a successful BookFlight of passenger \<open>p\<close> on
  flight \<open>f\<close> the identifier is in the flight's set; CancelBooking then succeeds and
  leaves the set without \<open>p\<close> and otherwise as it was; a second CancelBooking returns
  (true, nil) and changes nothing in the store.
\<close>

theorem CancelBooking_after_BookFlight:
  assumes "fst (BookFlight memDb flightNumber passengerId st) = (True, None)"
    and "s1 = snd (BookFlight memDb flightNumber passengerId st)"
    and "s2 = snd (CancelBooking memDb flightNumber passengerId s1)"
  shows "passengerId \<in> set (passengerIds s1 flightNumber) \<and>
         fst (CancelBooking memDb flightNumber passengerId s1) = (True, None) \<and>
         passengerId \<notin> set (passengerIds s2 flightNumber) \<and>
         set (passengerIds s2 flightNumber) = set (passengerIds s1 flightNumber) - {passengerId} \<and>
         CancelBooking memDb flightNumber passengerId s2 = ((True, None), s2)"
proof -
  let ?add = "setUpdate ActionADD flightNumber passengerId"
  let ?del = "setUpdate ActionDELETE flightNumber passengerId"
  have cancel: "\<And>s. CancelBooking memDb flightNumber passengerId s =
      ((case fst (?del s) of None \<Rightarrow> (True, None) | Some e \<Rightarrow> (False, Some e)), snd (?del s))"
    by (simp add: CancelBooking_eq svc_memDb mem_deleteFromSet)
  have s1: "s1 = snd (?add st)" and ok: "fst (?add st) = None"
    using assms(1,2) by (auto simp: BookFlight_eq svc_memDb mem_addToSet split: option.splits)
  then have u: "?add st = (None, s1)" by (simp add: prod_eq_iff)
  from setUpdate_settles[OF u] obtain row row0 where
    s: "settled s1 flightNumber row"
    and a: "applyAction ActionADD ''passengers'' [passengerId] row0 = Some row"
    by blast
  have ids1: "passengerIds s1 flightNumber = idsOf row"
    using settled_passengerIds[OF s] .
  have mem1: "passengerId \<in> set (passengerIds s1 flightNumber)"
    using applyAction_ADD_ids[OF a] ids1 by simp
  then have ne: "idsOf row \<noteq> []" using ids1 by auto
  from applyAction_DELETE_defined[OF ne] obtain row' where
    d: "applyAction ActionDELETE ''passengers'' [passengerId] row = Some row'" by blast
  have ok2: "fst (?del s1) = None" using settled_succeeds[OF s d] .
  have s2: "s2 = snd (?del s1)" using assms(3) by (simp add: cancel)
  have u2: "?del s1 = (None, s2)" using ok2 s2 by (simp add: prod_eq_iff)
  from mem1 have "ActionDELETE = ActionADD \<or> passengerIds s1 flightNumber \<noteq> []" by auto
  from setUpdate_settles[OF u2 this] obtain r r0 where
    s': "settled s2 flightNumber r"
    and a': "applyAction ActionDELETE ''passengers'' [passengerId] r0 = Some r"
    and i': "idsOf r0 = passengerIds s1 flightNumber"
    by blast
  have ids2: "passengerIds s2 flightNumber = filter (\<lambda>y. y \<noteq> passengerId) (passengerIds s1 flightNumber)"
    using settled_passengerIds[OF s'] applyAction_DELETE_ids[OF a'] i' by simp
  have again: "?del s2 = (None, s2)"
    using settled_fixpoint[OF s' applyAction_again[OF a']] .
  show ?thesis using mem1 ok2 ids2 again by (auto simp: cancel)
qed

theorem CancelBooking_after_BookFlight_witness:
  "fst (BookFlight memDb ''BA100'' ''p1'' (seeded False)) = (True, None) \<and>
   ''p1'' \<in> set (passengerIds (snd (BookFlight memDb ''BA100'' ''p1'' (seeded False))) ''BA100'') \<and>
   fst (CancelBooking memDb ''BA100'' ''p1'' (snd (BookFlight memDb ''BA100'' ''p1'' (seeded False)))) =
     (True, None) \<and>
   ''p1'' \<notin> set (passengerIds
                   (snd (CancelBooking memDb ''BA100'' ''p1''
                          (snd (BookFlight memDb ''BA100'' ''p1'' (seeded False))))) ''BA100'') \<and>
   fst (CancelBooking memDb ''BA100'' ''p1''
          (snd (CancelBooking memDb ''BA100'' ''p1''
                 (snd (BookFlight memDb ''BA100'' ''p1'' (seeded False)))))) = (True, None)"
proof -
  have h: "fst (BookFlight memDb ''BA100'' ''p1'' (seeded False)) = (True, None)"
    by (simp add: eval_book)
  show ?thesis
    using h CancelBooking_after_BookFlight [OF h refl refl]
    by simp
qed

section \<open>Passengers in the reference store\<close>

lemma find_filter_not: "find P (filter (\<lambda>x. \<not> P x) xs) = None"
  by (induction xs) auto

lemma Unmarshal_empty: "UnmarshalMap_Passenger Map.empty = Inr \<lparr>ID = '''', Name = ''''\<rparr>"
  by (simp add: UnmarshalMap_Passenger_def decodeString_def)

lemma Unmarshal_Marshal:
  "UnmarshalMap_Passenger (fst (MarshalMap_Passenger p)) = Inr p"
  by (simp add: UnmarshalMap_Passenger_def MarshalMap_Passenger_def decodeString_def
      encodeString_def)

lemma mem_GetPassenger:
  "Tables st ''passengers'' = Some t \<Longrightarrow> KeyName t = ''id'' \<Longrightarrow>
   GetPassenger memDb passengerId st =
     ((case UnmarshalMap_Passenger (passengerRow st passengerId) of
         Inl e \<Rightarrow> (None, Some e) | Inr p \<Rightarrow> (Some p, None)), st)"
  by (simp add: GetPassenger_def svc_memDb mem_sel mem_GetItem_def keyOf_def passengerRow_def
      split: option.split sum.split)

lemma mem_GetPassenger_state: "snd (GetPassenger memDb passengerId st) = st"
  by (simp add: GetPassenger_def svc_memDb mem_sel mem_GetItem_def Let_def
      split: option.split sum.split prod.split)

lemma mem_DeletePassenger_state:
  assumes "DeletePassenger memDb passengerId st = ((True, None), st')"
  shows "\<exists>t. Tables st ''passengers'' = Some t \<and> KeyName t = ''id'' \<and>
           st' = setTable st ''passengers'' (t\<lparr>Rows := filter (\<lambda>r. \<not> hasKey t passengerId r) (Rows t)\<rparr>)"
  using assms
  by (auto simp: DeletePassenger_eq svc_memDb mem_sel mem_DeleteItem_def keyOf_def
      split: option.splits AttributeValue.splits if_splits)

lemma UUID_String_nonempty: "UUID_String u \<noteq> ''''"
  by (simp add: UUID_String_def)

lemma mem_CreatePassenger_state:
  assumes "CreatePassenger uuid_New memDb name st0 = (Some (Some p, None), st1)"
    and "Tables st0' ''passengers'' = Some t" and "KeyName t = ''id''" and "st0' = snd (uuid_New st0)"
  shows "\<exists>t1. Tables st1 ''passengers'' = Some t1 \<and> KeyName t1 = ''id'' \<and>
           findRow t1 (ID p) = Some (fst (MarshalMap_Passenger p))"
proof -
  from assms(1) obtain u where u: "uuid_New st0 = (Some u, st0')" and p: "p = \<lparr>ID = UUID_String u, Name = name\<rparr>"
    and put: "mem_PutItem \<lparr>Put_Item = fst (MarshalMap_Passenger p), Put_TableName = ''passengers''\<rparr> st0' = (None, st1)"
    using assms(4)
    by (auto simp: CreatePassenger_def MarshalMap_Passenger_def svc_memDb mem_sel Let_def
        split: prod.splits option.splits)
  let ?item = "fst (MarshalMap_Passenger p)"
  have k: "keyOf t ?item = Some (ID p)" and hk: "hasKey t (ID p) ?item"
    using assms(3) p
    by (simp_all add: keyOf_def hasKey_def MarshalMap_Passenger_def encodeString_def
        UUID_String_nonempty)
  show ?thesis
  proof (cases "findRow t (ID p)")
    case None
    with put assms(2) k have "st1 = setTable st0' ''passengers'' (t\<lparr>Rows := Rows t @ [?item]\<rparr>)"
      by (simp add: mem_PutItem_def)
    moreover have "findRow (t\<lparr>Rows := Rows t @ [?item]\<rparr>) (ID p) = Some ?item"
      using None hk by (simp add: findRow_def find_append_new)
    ultimately show ?thesis using assms(3) by simp
  next
    case (Some r)
    with put assms(2) k have "st1 = setTable st0' ''passengers'' (replaceRow t (ID p) ?item)"
      by (simp add: mem_PutItem_def)
    moreover have "findRow (replaceRow t (ID p) ?item) (ID p) = Some ?item"
      using findRow_replaceRow[OF hk Some] .
    ultimately show ?thesis using assms(3) by simp
  qed
qed

text \<open>
  Claim C2.  On the reference store, when DeletePassenger of an identifier has succeeded,
  GetPassenger of that identifier returns the zero-valued passenger (empty id, empty name)
  and no error: the row is gone and the read is empty.  For a passenger that
  CreatePassenger has just stored, GetPassenger returned the populated record, whose id is
  not empty, so the result after the deletion is not that record.
\<close>

theorem deleted_passenger_reads_empty:
  "(DeletePassenger memDb passengerId st = ((True, None), st') \<longrightarrow>
      GetPassenger memDb passengerId st' = ((Some \<lparr>ID = '''', Name = ''''\<rparr>, None), st') \<and>
      passengerRow st' passengerId = Map.empty) \<and>
   (CreatePassenger uuid_New memDb name st0 = (Some (Some p, None), st1) \<and>
    Tables (snd (uuid_New st0)) ''passengers'' = Some t \<and> KeyName t = ''id'' \<longrightarrow>
      GetPassenger memDb (ID p) st1 = ((Some p, None), st1) \<and> ID p \<noteq> '''')"
proof (intro conjI impI)
  assume "DeletePassenger memDb passengerId st = ((True, None), st')"
  from mem_DeletePassenger_state[OF this] obtain t where
    t: "Tables st ''passengers'' = Some t" "KeyName t = ''id''"
    and st': "st' = setTable st ''passengers'' (t\<lparr>Rows := filter (\<lambda>r. \<not> hasKey t passengerId r) (Rows t)\<rparr>)"
    by blast
  show row: "passengerRow st' passengerId = Map.empty"
    by (simp add: passengerRow_def st' findRow_def find_filter_not)
  show "GetPassenger memDb passengerId st' = ((Some \<lparr>ID = '''', Name = ''''\<rparr>, None), st')"
  proof -
    have "Tables st' ''passengers'' =
        Some (t\<lparr>Rows := filter (\<lambda>r. \<not> hasKey t passengerId r) (Rows t)\<rparr>)"
      by (simp add: st')
    from mem_GetPassenger[OF this, of passengerId] t(2) show ?thesis
      by (simp add: row Unmarshal_empty)
  qed
next
  assume a: "CreatePassenger uuid_New memDb name st0 = (Some (Some p, None), st1) \<and>
    Tables (snd (uuid_New st0)) ''passengers'' = Some t \<and> KeyName t = ''id''"
  from mem_CreatePassenger_state[of uuid_New name st0 p st1 "snd (uuid_New st0)" t] a
  obtain t1 where t1: "Tables st1 ''passengers'' = Some t1" "KeyName t1 = ''id''"
    "findRow t1 (ID p) = Some (fst (MarshalMap_Passenger p))" by blast
  then have "passengerRow st1 (ID p) = fst (MarshalMap_Passenger p)"
    by (simp add: passengerRow_def)
  then show "GetPassenger memDb (ID p) st1 = ((Some p, None), st1)"
    using mem_GetPassenger[OF t1(1,2)] by (simp add: Unmarshal_Marshal)
  from a show "ID p \<noteq> ''''"
    by (auto simp: CreatePassenger_def Let_def UUID_String_nonempty split: prod.splits option.splits)
qed


lemma create_alice: "fst (CreatePassenger fixedSource memDb ''Alice'' (seeded True)) = Some (Some alice, None)"
  by code_simp

lemma delete_alice: "fst (DeletePassenger memDb (ID alice) (snd (CreatePassenger fixedSource memDb ''Alice'' (seeded True)))) = (True, None)"
  by code_simp

lemma fixedSource_table: "Tables (snd (fixedSource (seeded True))) ''passengers'' = Some \<lparr>KeyName = ''id'', Rows = []\<rparr>"
  by (simp add: fixedSource_def seeded_def)

theorem deleted_passenger_reads_empty_witness:
  "fst (CreatePassenger fixedSource memDb ''Alice'' (seeded True)) = Some (Some alice, None) \<and>
   fst (GetPassenger memDb (ID alice) (snd (CreatePassenger fixedSource memDb ''Alice'' (seeded True)))) =
     (Some alice, None) \<and>
   fst (DeletePassenger memDb (ID alice)
          (snd (CreatePassenger fixedSource memDb ''Alice'' (seeded True)))) = (True, None) \<and>
   fst (GetPassenger memDb (ID alice)
          (snd (DeletePassenger memDb (ID alice)
                 (snd (CreatePassenger fixedSource memDb ''Alice'' (seeded True)))))) =
     (Some \<lparr>ID = '''', Name = ''''\<rparr>, None)"
proof -
  let ?s1 = "snd (CreatePassenger fixedSource memDb ''Alice'' (seeded True))"
  let ?s2 = "snd (DeletePassenger memDb (ID alice) ?s1)"
  have c: "CreatePassenger fixedSource memDb ''Alice'' (seeded True) = (Some (Some alice, None), ?s1)"
    using create_alice by (simp add: prod_eq_iff)
  have d: "DeletePassenger memDb (ID alice) ?s1 = ((True, None), ?s2)"
    using delete_alice by (simp add: prod_eq_iff)
  have t: "Tables (snd (fixedSource (seeded True))) ''passengers'' = Some \<lparr>KeyName = ''id'', Rows = []\<rparr> \<and>
           KeyName \<lparr>KeyName = ''id'', Rows = []\<rparr> = ''id''"
    by (simp add: fixedSource_table)
  have r: "GetPassenger memDb (ID alice) ?s2 = ((Some \<lparr>ID = '''', Name = ''''\<rparr>, None), ?s2) \<and>
           GetPassenger memDb (ID alice) ?s1 = ((Some alice, None), ?s1)"
    using c d t
      deleted_passenger_reads_empty
        [of "ID alice" ?s1 ?s2 fixedSource "''Alice''" "seeded True" alice ?s1
            "\<lparr>KeyName = ''id'', Rows = []\<rparr>"]
    by blast
  have "fst (GetPassenger memDb (ID alice) ?s2) = (Some \<lparr>ID = '''', Name = ''''\<rparr>, None)"
    using r by (simp add: prod_eq_iff)
  moreover have "fst (GetPassenger memDb (ID alice) ?s1) = (Some alice, None)"
    using r by (simp add: prod_eq_iff)
  ultimately show ?thesis using create_alice delete_alice by blast
qed

section \<open>Creating a passenger\<close>
























section \<open>Listing\<close>

lemma passengersLoop_ok:
  "map UnmarshalMap_Passenger items = map Inr ps \<Longrightarrow>
   passengersLoop items acc = (acc @ map Some ps, None)"
  by (induction items arbitrary: acc ps) auto

lemma passengersLoop_fail:
  "map UnmarshalMap_Passenger pre = map Inr ps \<Longrightarrow> UnmarshalMap_Passenger bad = Inl e \<Longrightarrow>
   passengersLoop (pre @ bad # rest) acc = ([], Some e)"
  by (induction pre arbitrary: acc ps) auto

lemma passengersLoop_error: "snd (passengersLoop items acc) \<noteq> None \<Longrightarrow> fst (passengersLoop items acc) = []"
  by (induction items arbitrary: acc) (auto split: sum.splits)

lemma passengersLoop_length:
  "passengersLoop items acc = (xs, None) \<Longrightarrow> length xs = length acc + length items"
  by (induction items arbitrary: acc) (auto split: sum.splits)

lemma convertLoop_append_ok:
  "convertLoop g xs fl s = ((Some fl', None), s1) \<Longrightarrow>
   convertLoop g (xs @ ys) fl s = convertLoop g ys fl' s1"
  by (induction xs arbitrary: fl s) (auto split: prod.splits option.splits)

lemma convertLoop_error: "snd (fst (convertLoop g xs fl s)) \<noteq> None \<Longrightarrow> fst (fst (convertLoop g xs fl s)) = None"
  by (induction xs arbitrary: fl s) (auto split: prod.splits option.splits)

lemma convertLoop_ok_Some: "snd (fst (convertLoop g xs fl s)) = None \<Longrightarrow> fst (fst (convertLoop g xs fl s)) \<noteq> None"
  by (induction xs arbitrary: fl s) (auto split: prod.splits option.splits)

lemma flightsLoop_append_ok:
  "flightsLoop d xs acc s = ((fs, None), s1) \<Longrightarrow>
   flightsLoop d (xs @ ys) acc s = flightsLoop d ys fs s1"
  by (induction xs arbitrary: acc s) (auto split: prod.splits option.splits sum.splits)

lemma flightsLoop_error:
  "snd (fst (flightsLoop d xs acc s)) \<noteq> None \<Longrightarrow> fst (fst (flightsLoop d xs acc s)) = []"
  by (induction xs arbitrary: acc s) (auto split: prod.splits option.splits sum.splits)

lemma flightsLoop_length:
  "flightsLoop d xs acc s = ((fs, None), s') \<Longrightarrow> length fs = length acc + length xs"
  by (induction xs arbitrary: acc s) (auto split: prod.splits option.splits sum.splits)

lemma GetAllPassengers_eq:
  "GetAllPassengers d s =
     (case snd (fst (scanTable d ''passengers'' s)) of
        Some e \<Rightarrow> ([], Some e)
      | None \<Rightarrow> passengersLoop (Scan_Items (fst (fst (scanTable d ''passengers'' s)))) [],
      snd (scanTable d ''passengers'' s))"
  by (simp add: GetAllPassengers_def split: prod.split option.split)

lemma GetAllFlights_eq:
  "GetAllFlights d s =
     (case snd (fst (scanTable d ''flights'' s)) of
        Some e \<Rightarrow> (([], Some e), snd (scanTable d ''flights'' s))
      | None \<Rightarrow> flightsLoop d (Scan_Items (fst (fst (scanTable d ''flights'' s)))) []
                  (snd (scanTable d ''flights'' s)))"
  by (simp add: GetAllFlights_def split: prod.split option.split)

lemma GetPassenger_logged:
  "fst (snd (GetPassenger \<lparr>svc = logged db\<rparr> passengerId ls)) =
     fst ls @ [ReqGetItem \<lparr>Get_Key = [''id'' \<mapsto> AvS passengerId], Get_TableName = ''passengers''\<rparr>]"
  by (cases ls) (simp add: GetPassenger_def logged_sel Let_def split: prod.split option.split sum.split)

lemma convertLoop_scans:
  "filter isScan (fst (snd (convertLoop (GetPassenger \<lparr>svc = logged db\<rparr>) ids fl ls))) =
     filter isScan (fst ls)"
proof (induction ids arbitrary: fl ls)
  case Nil
  then show ?case by simp
next
  case (Cons a ids)
  show ?case
    using Cons.IH GetPassenger_logged[of db a ls]
    by (auto split: prod.splits option.splits)
qed

lemma flightsLoop_scans:
  "filter isScan (fst (snd (flightsLoop \<lparr>svc = logged db\<rparr> items acc ls))) = filter isScan (fst ls)"
proof (induction items arbitrary: acc ls)
  case Nil
  then show ?case by simp
next
  case (Cons a items)
  show ?case
  proof (cases "UnmarshalMap_DynamoFlight a")
    case (Inl e)
    then show ?thesis by simp
  next
    case (Inr df)
    obtain fl err ls' where c: "convertDynamoFlightToFlight (GetPassenger \<lparr>svc = logged db\<rparr>) df ls = ((fl, err), ls')"
      by (metis prod.exhaust)
    have "filter isScan (fst (snd (convertDynamoFlightToFlight (GetPassenger \<lparr>svc = logged db\<rparr>) df ls))) =
        filter isScan (fst ls)"
      by (simp add: convertDynamoFlightToFlight_def convertLoop_scans)
    with c have "filter isScan (fst ls') = filter isScan (fst ls)"
      by simp
    then show ?thesis using Inr c Cons.IH by (cases err) simp_all
  qed
qed

lemma scanTable_logged:
  "scanTable \<lparr>svc = logged db\<rparr> tableName (log, s) =
     (fst (Scan db \<lparr>Scan_TableName = tableName\<rparr> s),
      (log @ [ReqScan \<lparr>Scan_TableName = tableName\<rparr>], snd (Scan db \<lparr>Scan_TableName = tableName\<rparr> s)))"
  by (simp add: scanTable_def logged_sel Let_def)

text \<open>
  Claim C9.  For every client and table name, scanTable issues exactly one Scan request
  and returns what that call returned.  GetAllPassengers issues that one request and no
  other; GetAllFlights issues one Scan and otherwise only point lookups.  Neither reads
  \<open>LastEvaluatedKey\<close>, so no further page is asked for, and a listing that succeeds has
  one entry for each item of that single response.
\<close>

theorem scan_is_one_request:
  "scanTable \<lparr>svc = logged db\<rparr> tableName ([], s) =
     (fst (Scan db \<lparr>Scan_TableName = tableName\<rparr> s),
      ([ReqScan \<lparr>Scan_TableName = tableName\<rparr>], snd (Scan db \<lparr>Scan_TableName = tableName\<rparr> s))) \<and>
   fst (snd (GetAllPassengers \<lparr>svc = logged db\<rparr> ([], s))) =
     [ReqScan \<lparr>Scan_TableName = ''passengers''\<rparr>] \<and>
   filter isScan (fst (snd (GetAllFlights \<lparr>svc = logged db\<rparr> ([], s)))) =
     [ReqScan \<lparr>Scan_TableName = ''flights''\<rparr>] \<and>
   (GetAllPassengers d s0 = ((passengers, None), s1) \<longrightarrow>
      length passengers =
        length (Scan_Items (fst (fst (Scan (svc d) \<lparr>Scan_TableName = ''passengers''\<rparr> s0))))) \<and>
   (GetAllFlights d s0 = ((flights, None), s1) \<longrightarrow>
      length flights =
        length (Scan_Items (fst (fst (Scan (svc d) \<lparr>Scan_TableName = ''flights''\<rparr> s0)))))"
proof (intro conjI impI)
  show "scanTable \<lparr>svc = logged db\<rparr> tableName ([], s) =
     (fst (Scan db \<lparr>Scan_TableName = tableName\<rparr> s),
      ([ReqScan \<lparr>Scan_TableName = tableName\<rparr>], snd (Scan db \<lparr>Scan_TableName = tableName\<rparr> s)))"
    by (simp add: scanTable_logged)
  show "fst (snd (GetAllPassengers \<lparr>svc = logged db\<rparr> ([], s))) =
     [ReqScan \<lparr>Scan_TableName = ''passengers''\<rparr>]"
    by (simp add: GetAllPassengers_eq scanTable_logged)
  show "filter isScan (fst (snd (GetAllFlights \<lparr>svc = logged db\<rparr> ([], s)))) =
     [ReqScan \<lparr>Scan_TableName = ''flights''\<rparr>]"
    by (simp add: GetAllFlights_eq scanTable_logged flightsLoop_scans split: option.split)
next
  assume "GetAllPassengers d s0 = ((passengers, None), s1)"
  then show "length passengers =
        length (Scan_Items (fst (fst (Scan (svc d) \<lparr>Scan_TableName = ''passengers''\<rparr> s0))))"
    by (auto simp: GetAllPassengers_eq scanTable_def dest: passengersLoop_length split: option.splits)
next
  assume "GetAllFlights d s0 = ((flights, None), s1)"
  then show "length flights =
        length (Scan_Items (fst (fst (Scan (svc d) \<lparr>Scan_TableName = ''flights''\<rparr> s0))))"
    by (auto simp: GetAllFlights_eq scanTable_def dest: flightsLoop_length split: option.splits)
qed

lemma paged_passengers:
  "fst (GetAllPassengers \<lparr>svc = paged 1\<rparr> (sample [flightBooked] [ann, bob])) =
     ([Some \<lparr>ID = ''p1'', Name = ''Ann''\<rparr>], None)"
  by code_simp

lemma paged_flights:
  "fst (GetAllFlights \<lparr>svc = paged 1\<rparr> (sample [flightBooked] [ann, bob])) =
     ([Some \<lparr>Number = ''BA100'', Capacity = 2, Captain = ''Kirk'', Plane = ''A320'',
             Passengers = [Some \<lparr>ID = ''p2'', Name = ''Bob''\<rparr>, Some \<lparr>ID = ''p1'', Name = ''Ann''\<rparr>]\<rparr>],
      None)"
  by code_simp

lemma paged_more:
  "Scan_LastEvaluatedKey (fst (fst (Scan (paged 1) \<lparr>Scan_TableName = ''passengers''\<rparr>
      (sample [flightBooked] [ann, bob])))) ''id'' = Some (AvS ''p1'')"
  by code_simp

lemma paged_one:
  "length (Scan_Items (fst (fst (Scan (paged 1) \<lparr>Scan_TableName = ''passengers''\<rparr>
      (sample [flightBooked] [ann, bob]))))) = 1"
  by code_simp

theorem scan_is_one_request_witness:
  "fst (GetAllPassengers \<lparr>svc = paged 1\<rparr> (sample [flightBooked] [ann, bob])) =
     ([Some \<lparr>ID = ''p1'', Name = ''Ann''\<rparr>], None) \<and>
   Scan_LastEvaluatedKey (fst (fst (Scan (paged 1) \<lparr>Scan_TableName = ''passengers''\<rparr>
      (sample [flightBooked] [ann, bob])))) ''id'' = Some (AvS ''p1'') \<and>
   Tables (sample [flightBooked] [ann, bob]) ''passengers'' =
     Some \<lparr>KeyName = ''id'', Rows = [ann, bob]\<rparr> \<and>
   length [Some \<lparr>ID = ''p1'', Name = ''Ann''\<rparr>] =
     length (Scan_Items (fst (fst (Scan (paged 1) \<lparr>Scan_TableName = ''passengers''\<rparr>
       (sample [flightBooked] [ann, bob]))))) \<and>
   fst (snd (GetAllPassengers \<lparr>svc = logged (paged 1)\<rparr> ([], sample [flightBooked] [ann, bob]))) =
     [ReqScan \<lparr>Scan_TableName = ''passengers''\<rparr>] \<and>
   length (fst (fst (GetAllFlights \<lparr>svc = paged 1\<rparr> (sample [flightBooked] [ann, bob])))) =
     length (Scan_Items (fst (fst (Scan (paged 1) \<lparr>Scan_TableName = ''flights''\<rparr>
       (sample [flightBooked] [ann, bob])))))"
proof -
  let ?st = "sample [flightBooked] [ann, bob]"
  let ?d = "\<lparr>svc = paged 1\<rparr>"
  have p: "GetAllPassengers ?d ?st =
      (([Some \<lparr>ID = ''p1'', Name = ''Ann''\<rparr>], None), snd (GetAllPassengers ?d ?st))"
    using paged_passengers by (simp add: prod_eq_iff)
  have f: "GetAllFlights ?d ?st =
      ((fst (fst (GetAllFlights ?d ?st)), None), snd (GetAllFlights ?d ?st))"
    using paged_flights by (simp add: prod_eq_iff)
  have two: "Tables ?st ''passengers'' = Some \<lparr>KeyName = ''id'', Rows = [ann, bob]\<rparr>"
    by (simp add: sample_def)
  note t = scan_is_one_request [where db = "paged 1" and tableName = "''passengers''" and s = ?st
      and d = ?d and ?s0.0 = ?st]
  have "length [Some \<lparr>ID = ''p1'', Name = ''Ann''\<rparr>] =
     length (Scan_Items (fst (fst (Scan (paged 1) \<lparr>Scan_TableName = ''passengers''\<rparr> ?st))))"
    using t[where passengers = "[Some \<lparr>ID = ''p1'', Name = ''Ann''\<rparr>]"
        and ?s1.0 = "snd (GetAllPassengers ?d ?st)"] p
    by simp
  moreover have "fst (snd (GetAllPassengers \<lparr>svc = logged (paged 1)\<rparr> ([], ?st))) =
     [ReqScan \<lparr>Scan_TableName = ''passengers''\<rparr>]"
    using t by blast
  moreover have "length (fst (fst (GetAllFlights ?d ?st))) =
     length (Scan_Items (fst (fst (Scan (paged 1) \<lparr>Scan_TableName = ''flights''\<rparr> ?st))))"
    using t[where flights = "fst (fst (GetAllFlights ?d ?st))"
        and ?s1.0 = "snd (GetAllFlights ?d ?st)"] f
    by simp
  ultimately show ?thesis using paged_passengers paged_more two by blast
qed

section \<open>The flight listing on the reference store\<close>

lemma mem_GetPassenger_ok:
  assumes "GetPassenger memDb passengerId st = ((r, None), st')"
  shows "st' = st \<and> r = storedPassenger st passengerId \<and> r \<noteq> None"
proof -
  from assms obtain t where t: "Tables st ''passengers'' = Some t" "KeyName t = ''id''"
    by (auto simp: GetPassenger_def svc_memDb mem_sel mem_GetItem_def keyOf_def Let_def
        split: option.splits AttributeValue.splits if_splits)
  from mem_GetPassenger[OF t, of passengerId] assms show ?thesis
    by (auto simp: storedPassenger_def split: sum.splits)
qed

lemma mem_convertLoop_state: "snd (convertLoop (GetPassenger memDb) ids fl st) = st"
proof (induction ids arbitrary: fl)
  case Nil
  then show ?case by simp
next
  case (Cons a ids)
  show ?case
    using Cons.IH mem_GetPassenger_state[of a st]
    by (auto split: prod.splits option.splits)
qed

lemma mem_convert_state: "snd (convertDynamoFlightToFlight (GetPassenger memDb) df st) = st"
  by (simp add: convertDynamoFlightToFlight_def mem_convertLoop_state)

lemma mem_flightsLoop_state: "snd (flightsLoop memDb items acc st) = st"
proof (induction items arbitrary: acc)
  case Nil
  then show ?case by simp
next
  case (Cons a items)
  show ?case
  proof (cases "UnmarshalMap_DynamoFlight a")
    case (Inl e)
    then show ?thesis by simp
  next
    case (Inr df)
    obtain fl err where c: "convertDynamoFlightToFlight (GetPassenger memDb) df st = ((fl, err), st)"
      using mem_convert_state[of df st] by (metis prod.collapse)
    show ?thesis using Inr c Cons.IH by (cases err) simp_all
  qed
qed

lemma mem_scanTable_state: "snd (scanTable memDb tableName st) = st"
  by (simp add: scanTable_def svc_memDb mem_sel mem_Scan_def split: option.split)

lemma mem_GetAllFlights_state: "snd (GetAllFlights memDb st) = st"
  by (simp add: GetAllFlights_eq mem_scanTable_state mem_flightsLoop_state split: option.split)

lemma mem_convertLoop_ok:
  "convertLoop (GetPassenger memDb) ids fl st = ((r, None), st') \<Longrightarrow>
   r = Some (fl\<lparr>Passengers := Passengers fl @ map (storedPassenger st) ids\<rparr>) \<and>
   None \<notin> set (map (storedPassenger st) ids)"
proof (induction ids arbitrary: fl)
  case Nil
  then show ?case by simp
next
  case (Cons a ids)
  from Cons.prems obtain x s1 where g: "GetPassenger memDb a st = ((x, None), s1)"
    and rest: "convertLoop (GetPassenger memDb) ids (fl\<lparr>Passengers := Passengers fl @ [x]\<rparr>) s1 = ((r, None), st')"
    by (auto split: prod.splits option.splits)
  from mem_GetPassenger_ok[OF g] have x: "s1 = st" "x = storedPassenger st a" "x \<noteq> None" by blast+
  from rest x have "convertLoop (GetPassenger memDb) ids (fl\<lparr>Passengers := Passengers fl @ [x]\<rparr>) st = ((r, None), st')"
    by simp
  from Cons.IH[OF this] x(2,3)
  show ?case by auto
qed


lemma decode_ids:
  "UnmarshalMap_DynamoFlight row = Inr df \<Longrightarrow> DynamoPassengers df = idsOf row"
  by (auto simp: UnmarshalMap_DynamoFlight_def decodeStringSet_def idsOf_def
      split: sum.splits option.splits AttributeValue.splits)

lemma mem_convert_ok:
  assumes "convertDynamoFlightToFlight (GetPassenger memDb) df st = ((r, None), st')"
  shows "r = Some \<lparr>Number = DynamoNumber df, Capacity = DynamoCapacity df,
                   Captain = DynamoCaptain df, Plane = DynamoPlane df,
                   Passengers = map (storedPassenger st) (DynamoPassengers df)\<rparr> \<and>
         None \<notin> set (map (storedPassenger st) (DynamoPassengers df))"
  using mem_convertLoop_ok[OF assms[unfolded convertDynamoFlightToFlight_def Let_def]]
  by simp

lemma mem_flightsLoop_ok:
  "flightsLoop memDb items acc st = ((fs, None), st') \<Longrightarrow>
   \<exists>dfs. map UnmarshalMap_DynamoFlight items = map Inr dfs \<and>
         fs = acc @ map (\<lambda>df. Some \<lparr>Number = DynamoNumber df, Capacity = DynamoCapacity df,
                   Captain = DynamoCaptain df, Plane = DynamoPlane df,
                   Passengers = map (storedPassenger st) (DynamoPassengers df)\<rparr>) dfs \<and>
         (\<forall>df\<in>set dfs. None \<notin> set (map (storedPassenger st) (DynamoPassengers df)))"
proof (induction items arbitrary: acc)
  case Nil
  then show ?case by simp
next
  case (Cons a items)
  from Cons.prems obtain df where df: "UnmarshalMap_DynamoFlight a = Inr df"
    by (auto split: sum.splits)
  with Cons.prems obtain fl s1 where c: "convertDynamoFlightToFlight (GetPassenger memDb) df st = ((fl, None), s1)"
    and rest: "flightsLoop memDb items (acc @ [fl]) s1 = ((fs, None), st')"
    by (auto split: prod.splits option.splits)
  have s1: "s1 = st" using mem_convert_state[of df st] c by simp
  note ok = mem_convert_ok[OF c]
  from Cons.IH[OF rest[unfolded s1]] obtain dfs where
    dfs: "map UnmarshalMap_DynamoFlight items = map Inr dfs"
      "fs = (acc @ [fl]) @ map (\<lambda>df. Some \<lparr>Number = DynamoNumber df, Capacity = DynamoCapacity df,
                   Captain = DynamoCaptain df, Plane = DynamoPlane df,
                   Passengers = map (storedPassenger st) (DynamoPassengers df)\<rparr>) dfs"
      "\<forall>df\<in>set dfs. None \<notin> set (map (storedPassenger st) (DynamoPassengers df))"
    by blast
  show ?case
    by (rule exI[of _ "df # dfs"]) (use df dfs ok in simp)
qed

lemma GetPassenger_logged_eq:
  "GetPassenger \<lparr>svc = logged db\<rparr> passengerId (log, s) =
     (fst (GetPassenger \<lparr>svc = db\<rparr> passengerId s),
      (log @ [lookupRequest passengerId], snd (GetPassenger \<lparr>svc = db\<rparr> passengerId s)))"
  by (simp add: GetPassenger_def logged_sel Let_def lookupRequest_def
      split: prod.split option.split sum.split)

lemma convertLoop_logged_ok:
  "snd (fst (convertLoop (GetPassenger \<lparr>svc = db\<rparr>) ids fl s)) = None \<Longrightarrow>
   convertLoop (GetPassenger \<lparr>svc = logged db\<rparr>) ids fl (log, s) =
     (fst (convertLoop (GetPassenger \<lparr>svc = db\<rparr>) ids fl s),
      (log @ map lookupRequest ids, snd (convertLoop (GetPassenger \<lparr>svc = db\<rparr>) ids fl s)))"
proof (induction ids arbitrary: fl s log)
  case Nil
  then show ?case by simp
next
  case (Cons a ids)
  obtain x err s1 where g: "GetPassenger \<lparr>svc = db\<rparr> a s = ((x, err), s1)"
    by (metis prod.exhaust)
  with Cons.prems have err: "err = None" by (cases err) simp_all
  from Cons.prems g err
  have "snd (fst (convertLoop (GetPassenger \<lparr>svc = db\<rparr>) ids (fl\<lparr>Passengers := Passengers fl @ [x]\<rparr>) s1)) = None"
    by simp
  from Cons.IH[OF this, of "log @ [lookupRequest a]"] g err
  show ?case by (simp add: GetPassenger_logged_eq)
qed

lemma flightsLoop_logged_ok:
  "snd (fst (flightsLoop \<lparr>svc = db\<rparr> items acc s)) = None \<Longrightarrow>
   flightsLoop \<lparr>svc = logged db\<rparr> items acc (log, s) =
     (fst (flightsLoop \<lparr>svc = db\<rparr> items acc s),
      (log @ concat (map (\<lambda>row. map lookupRequest (idsOf row)) items),
       snd (flightsLoop \<lparr>svc = db\<rparr> items acc s)))"
proof (induction items arbitrary: acc s log)
  case Nil
  then show ?case by simp
next
  case (Cons a items)
  from Cons.prems obtain df where df: "UnmarshalMap_DynamoFlight a = Inr df"
    by (cases "UnmarshalMap_DynamoFlight a") simp_all
  obtain fl err s1 where c: "convertDynamoFlightToFlight (GetPassenger \<lparr>svc = db\<rparr>) df s = ((fl, err), s1)"
    by (metis prod.exhaust)
  with Cons.prems df have err: "err = None" by (cases err) simp_all
  have "snd (fst (convertLoop (GetPassenger \<lparr>svc = db\<rparr>) (DynamoPassengers df)
            \<lparr>Number = DynamoNumber df, Capacity = DynamoCapacity df,
              Captain = DynamoCaptain df, Plane = DynamoPlane df, Passengers = []\<rparr> s)) = None"
    using c err by (simp add: convertDynamoFlightToFlight_def)
  from convertLoop_logged_ok[OF this, of log]
  have cl: "convertDynamoFlightToFlight (GetPassenger \<lparr>svc = logged db\<rparr>) df (log, s) =
      ((fl, None), (log @ map lookupRequest (idsOf a), s1))"
    using c err decode_ids[OF df] by (simp add: convertDynamoFlightToFlight_def)
  from Cons.prems df c err
  have "snd (fst (flightsLoop \<lparr>svc = db\<rparr> items (acc @ [fl]) s1)) = None" by simp
  from Cons.IH[OF this, of "log @ map lookupRequest (idsOf a)"] df c err cl
  show ?case by simp
qed

lemma GetAllFlights_logged_ok:
  assumes "snd (fst (GetAllFlights \<lparr>svc = db\<rparr> s)) = None"
  shows "fst (snd (GetAllFlights \<lparr>svc = logged db\<rparr> ([], s))) =
     ReqScan \<lparr>Scan_TableName = ''flights''\<rparr> #
     concat (map (\<lambda>row. map lookupRequest (idsOf row))
               (Scan_Items (fst (fst (Scan db \<lparr>Scan_TableName = ''flights''\<rparr> s)))))"
proof -
  let ?sc = "Scan db \<lparr>Scan_TableName = ''flights''\<rparr> s"
  have sc: "scanTable \<lparr>svc = db\<rparr> ''flights'' s = ?sc" by (simp add: scanTable_def)
  from assms have e: "snd (fst ?sc) = None"
    by (cases "snd (fst ?sc)") (simp_all add: GetAllFlights_eq sc)
  with assms have "snd (fst (flightsLoop \<lparr>svc = db\<rparr> (Scan_Items (fst (fst ?sc))) [] (snd ?sc))) = None"
    by (simp add: GetAllFlights_eq sc)
  from flightsLoop_logged_ok[OF this, of "[ReqScan \<lparr>Scan_TableName = ''flights''\<rparr>]"] e
  show ?thesis by (simp add: GetAllFlights_eq scanTable_logged)
qed

lemma memDb_eq: "memDb = \<lparr>svc = mem\<rparr>"
  by (simp add: memDb_def)

lemma mem_scan_flights:
  "Tables st ''flights'' = Some t \<Longrightarrow>
   Scan mem \<lparr>Scan_TableName = ''flights''\<rparr> st =
     ((\<lparr>Scan_Items = Rows t, Scan_LastEvaluatedKey = Map.empty\<rparr>, None), st)"
  by (simp add: mem_sel mem_Scan_def)

text \<open>
  Claim C1.  On the reference store a successful GetAllFlights leaves the store unchanged
  and returns one flight for each row of the flights table, in scan order; the flight for
  a row carries the row's number, capacity, captain and plane, and its passenger list is
  the list of the stored passenger records of the identifiers in the row's passenger set,
  in the order the store returned them, none of them nil.  For a passenger set {p1, p2}
  the list holds exactly the records of p1 and p2, in either order.  The requests issued
  are the scan followed by one GetItem on \<open>passengers\<close> for each identifier of each row.
\<close>

theorem GetAllFlights_expands_passengers:
  assumes "GetAllFlights memDb st = ((flights, None), st')"
    and "Tables st ''flights'' = Some t"
    and "i < length (Rows t)"
  shows "st' = st \<and> length flights = length (Rows t) \<and>
     (\<exists>df. UnmarshalMap_DynamoFlight (Rows t ! i) = Inr df \<and>
           DynamoPassengers df = idsOf (Rows t ! i) \<and>
           flights ! i =
             Some \<lparr>Number = DynamoNumber df, Capacity = DynamoCapacity df,
                   Captain = DynamoCaptain df, Plane = DynamoPlane df,
                   Passengers = map (storedPassenger st) (idsOf (Rows t ! i))\<rparr>) \<and>
     None \<notin> set (map (storedPassenger st) (idsOf (Rows t ! i))) \<and>
     (set (idsOf (Rows t ! i)) = {p1, p2} \<longrightarrow>
        set (map (storedPassenger st) (idsOf (Rows t ! i))) =
          {storedPassenger st p1, storedPassenger st p2} \<and>
        (distinct (idsOf (Rows t ! i)) \<and> p1 \<noteq> p2 \<longrightarrow>
           length (map (storedPassenger st) (idsOf (Rows t ! i))) = 2)) \<and>
     fst (snd (GetAllFlights \<lparr>svc = logged mem\<rparr> ([], st))) =
       ReqScan \<lparr>Scan_TableName = ''flights''\<rparr> #
       concat (map (\<lambda>row. map (\<lambda>passengerId.
                               ReqGetItem \<lparr>Get_Key = [''id'' \<mapsto> AvS passengerId],
                                           Get_TableName = ''passengers''\<rparr>) (idsOf row))
                 (Rows t))"
proof -
  have sc: "scanTable memDb ''flights'' st =
      ((\<lparr>Scan_Items = Rows t, Scan_LastEvaluatedKey = Map.empty\<rparr>, None), st)"
    using mem_scan_flights[OF assms(2)] by (simp add: scanTable_def svc_memDb)
  with assms(1) have loop: "flightsLoop memDb (Rows t) [] st = ((flights, None), st')"
    by (simp add: GetAllFlights_eq)
  have st': "st' = st" using mem_flightsLoop_state[of "Rows t" "[]" st] loop by simp
  from mem_flightsLoop_ok[OF loop] obtain dfs where
    dfs: "map UnmarshalMap_DynamoFlight (Rows t) = map Inr dfs"
    and fl: "flights = map (\<lambda>df. Some \<lparr>Number = DynamoNumber df, Capacity = DynamoCapacity df,
                   Captain = DynamoCaptain df, Plane = DynamoPlane df,
                   Passengers = map (storedPassenger st) (DynamoPassengers df)\<rparr>) dfs"
    and nn: "\<forall>df\<in>set dfs. None \<notin> set (map (storedPassenger st) (DynamoPassengers df))"
    by auto
  have len: "length dfs = length (Rows t)"
    using dfs by (metis length_map)
  have i: "i < length dfs" using len assms(3) by simp
  have dec: "UnmarshalMap_DynamoFlight (Rows t ! i) = Inr (dfs ! i)"
    using dfs assms(3) i by (metis nth_map)
  have ids: "DynamoPassengers (dfs ! i) = idsOf (Rows t ! i)"
    using decode_ids[OF dec] .
  have fi: "flights ! i =
      Some \<lparr>Number = DynamoNumber (dfs ! i), Capacity = DynamoCapacity (dfs ! i),
            Captain = DynamoCaptain (dfs ! i), Plane = DynamoPlane (dfs ! i),
            Passengers = map (storedPassenger st) (idsOf (Rows t ! i))\<rparr>"
    using fl i ids by simp
  have none: "None \<notin> set (map (storedPassenger st) (idsOf (Rows t ! i)))"
    using nn i ids nth_mem[OF i] by metis
  have two: "set (map (storedPassenger st) (idsOf (Rows t ! i))) =
          {storedPassenger st p1, storedPassenger st p2} \<and>
        (distinct (idsOf (Rows t ! i)) \<and> p1 \<noteq> p2 \<longrightarrow>
           length (map (storedPassenger st) (idsOf (Rows t ! i))) = 2)"
    if s: "set (idsOf (Rows t ! i)) = {p1, p2}"
  proof -
    have "distinct (idsOf (Rows t ! i)) \<Longrightarrow> p1 \<noteq> p2 \<Longrightarrow> length (idsOf (Rows t ! i)) = 2"
      using s distinct_card[of "idsOf (Rows t ! i)"] by simp
    then show ?thesis using s by auto
  qed
  have "snd (fst (GetAllFlights \<lparr>svc = mem\<rparr> st)) = None"
    using assms(1) by (simp add: memDb_eq)
  from GetAllFlights_logged_ok[OF this]
  have log: "fst (snd (GetAllFlights \<lparr>svc = logged mem\<rparr> ([], st))) =
       ReqScan \<lparr>Scan_TableName = ''flights''\<rparr> #
       concat (map (\<lambda>row. map (\<lambda>passengerId.
                               ReqGetItem \<lparr>Get_Key = [''id'' \<mapsto> AvS passengerId],
                                           Get_TableName = ''passengers''\<rparr>) (idsOf row))
                 (Rows t))"
    using mem_scan_flights[OF assms(2)] by (simp add: lookupRequest_def[abs_def])
  show ?thesis
    using st' fl len dec ids fi none two log by auto
qed


lemma listed_flights:
  "fst (GetAllFlights memDb (sample [flightBooked] [ann, bob])) =
     ([Some \<lparr>Number = ''BA100'', Capacity = 2, Captain = ''Kirk'', Plane = ''A320'',
             Passengers = [Some \<lparr>ID = ''p2'', Name = ''Bob''\<rparr>,
                           Some \<lparr>ID = ''p1'', Name = ''Ann''\<rparr>]\<rparr>], None)"
  by code_simp

lemma stored_ann_bob:
  "storedPassenger (sample [flightBooked] [ann, bob]) ''p1'' = Some \<lparr>ID = ''p1'', Name = ''Ann''\<rparr>"
  "storedPassenger (sample [flightBooked] [ann, bob]) ''p2'' = Some \<lparr>ID = ''p2'', Name = ''Bob''\<rparr>"
  by code_simp+

lemma ids_flightBooked: "idsOf flightBooked = [''p2'', ''p1'']"
  by (simp add: idsOf_def flightBooked_def)

theorem GetAllFlights_expands_passengers_witness:
  "fst (GetAllFlights memDb (sample [flightBooked] [ann, bob])) =
     ([Some \<lparr>Number = ''BA100'', Capacity = 2, Captain = ''Kirk'', Plane = ''A320'',
             Passengers = [Some \<lparr>ID = ''p2'', Name = ''Bob''\<rparr>,
                           Some \<lparr>ID = ''p1'', Name = ''Ann''\<rparr>]\<rparr>], None) \<and>
   Tables (sample [flightBooked] [ann, bob]) ''flights'' =
     Some \<lparr>KeyName = ''number'', Rows = [flightBooked]\<rparr> \<and>
   idsOf flightBooked = [''p2'', ''p1''] \<and>
   storedPassenger (sample [flightBooked] [ann, bob]) ''p1'' = Some \<lparr>ID = ''p1'', Name = ''Ann''\<rparr> \<and>
   storedPassenger (sample [flightBooked] [ann, bob]) ''p2'' = Some \<lparr>ID = ''p2'', Name = ''Bob''\<rparr> \<and>
   set (map (storedPassenger (sample [flightBooked] [ann, bob])) (idsOf flightBooked)) =
     {Some \<lparr>ID = ''p1'', Name = ''Ann''\<rparr>, Some \<lparr>ID = ''p2'', Name = ''Bob''\<rparr>} \<and>
   length (map (storedPassenger (sample [flightBooked] [ann, bob])) (idsOf flightBooked)) = 2 \<and>
   fst (snd (GetAllFlights \<lparr>svc = logged mem\<rparr> ([], sample [flightBooked] [ann, bob]))) =
     [ReqScan \<lparr>Scan_TableName = ''flights''\<rparr>,
      ReqGetItem \<lparr>Get_Key = [''id'' \<mapsto> AvS ''p2''], Get_TableName = ''passengers''\<rparr>,
      ReqGetItem \<lparr>Get_Key = [''id'' \<mapsto> AvS ''p1''], Get_TableName = ''passengers''\<rparr>]"
proof -
  let ?st = "sample [flightBooked] [ann, bob]"
  let ?t = "\<lparr>KeyName = ''number'', Rows = [flightBooked]\<rparr>"
  have h1: "GetAllFlights memDb ?st = ((fst (fst (GetAllFlights memDb ?st)), None), ?st)"
    using listed_flights mem_GetAllFlights_state[of ?st] by (simp add: prod_eq_iff)
  have h2: "Tables ?st ''flights'' = Some ?t" by (simp add: sample_def)
  have h3: "0 < length (Rows ?t)" by simp
  have s: "set (idsOf (Rows ?t ! 0)) = {''p1'', ''p2''}" "distinct (idsOf (Rows ?t ! 0))"
    by (auto simp: ids_flightBooked)
  from GetAllFlights_expands_passengers [OF h1 h2 h3, of "''p1''" "''p2''"] s
  have "set (map (storedPassenger ?st) (idsOf (Rows ?t ! 0))) =
          {storedPassenger ?st ''p1'', storedPassenger ?st ''p2''} \<and>
        length (map (storedPassenger ?st) (idsOf (Rows ?t ! 0))) = 2 \<and>
        fst (snd (GetAllFlights \<lparr>svc = logged mem\<rparr> ([], ?st))) =
          ReqScan \<lparr>Scan_TableName = ''flights''\<rparr> #
          concat (map (\<lambda>row. map (\<lambda>passengerId.
                               ReqGetItem \<lparr>Get_Key = [''id'' \<mapsto> AvS passengerId],
                                           Get_TableName = ''passengers''\<rparr>) (idsOf row))
                 (Rows ?t))"
    by simp
  then have r: "set (map (storedPassenger ?st) (idsOf flightBooked)) =
     {Some \<lparr>ID = ''p1'', Name = ''Ann''\<rparr>, Some \<lparr>ID = ''p2'', Name = ''Bob''\<rparr>} \<and>
   length (map (storedPassenger ?st) (idsOf flightBooked)) = 2 \<and>
   fst (snd (GetAllFlights \<lparr>svc = logged mem\<rparr> ([], ?st))) =
     [ReqScan \<lparr>Scan_TableName = ''flights''\<rparr>,
      ReqGetItem \<lparr>Get_Key = [''id'' \<mapsto> AvS ''p2''], Get_TableName = ''passengers''\<rparr>,
      ReqGetItem \<lparr>Get_Key = [''id'' \<mapsto> AvS ''p1''], Get_TableName = ''passengers''\<rparr>]"
    by (simp add: stored_ann_bob ids_flightBooked)
  show ?thesis
    using listed_flights h2 ids_flightBooked stored_ann_bob r by blast
qed

section \<open>Failures during a listing\<close>

text \<open>
  Claim C5.  When the scan succeeded and the items before the bad one were processed
  without error, GetAllPassengers returns the error of the first item that does not
  decode, and GetAllFlights returns the error of the first item that does not decode or
  of the first passenger lookup that fails; in each case the list returned with the error
  is empty.  Whenever a listing returns an error its list is empty, so no list that leaves
  the bad item out is ever returned.
\<close>

theorem listing_aborts_on_first_failure:
  "(scanTable d ''passengers'' s = ((result, None), s1) \<and> Scan_Items result = pre @ bad # rest \<and>
    map UnmarshalMap_Passenger pre = map Inr ps \<and> UnmarshalMap_Passenger bad = Inl e \<longrightarrow>
      GetAllPassengers d s = (([], Some e), s1)) \<and>
   (scanTable d ''flights'' s = ((result, None), s1) \<and> Scan_Items result = pre @ bad # rest \<and>
    flightsLoop d pre [] s1 = ((flights, None), s2) \<and> UnmarshalMap_DynamoFlight bad = Inl e \<longrightarrow>
      GetAllFlights d s = (([], Some e), s2)) \<and>
   (scanTable d ''flights'' s = ((result, None), s1) \<and> Scan_Items result = pre @ bad # rest \<and>
    flightsLoop d pre [] s1 = ((flights, None), s2) \<and> UnmarshalMap_DynamoFlight bad = Inr item \<and>
    DynamoPassengers item = ids @ passengerId # ids' \<and>
    convertDynamoFlightToFlight (GetPassenger d) (item\<lparr>DynamoPassengers := ids\<rparr>) s2 =
      ((Some flight, None), s3) \<and>
    GetPassenger d passengerId s3 = ((passenger, Some e), s4) \<longrightarrow>
      GetAllFlights d s = (([], Some e), s4)) \<and>
   (snd (fst (GetAllPassengers d s)) \<noteq> None \<longrightarrow> fst (fst (GetAllPassengers d s)) = []) \<and>
   (snd (fst (GetAllFlights d s)) \<noteq> None \<longrightarrow> fst (fst (GetAllFlights d s)) = [])"
proof (intro conjI impI)
  assume "scanTable d ''passengers'' s = ((result, None), s1) \<and> Scan_Items result = pre @ bad # rest \<and>
    map UnmarshalMap_Passenger pre = map Inr ps \<and> UnmarshalMap_Passenger bad = Inl e"
  then show "GetAllPassengers d s = (([], Some e), s1)"
    by (simp add: GetAllPassengers_eq passengersLoop_fail)
next
  assume a: "scanTable d ''flights'' s = ((result, None), s1) \<and> Scan_Items result = pre @ bad # rest \<and>
    flightsLoop d pre [] s1 = ((flights, None), s2) \<and> UnmarshalMap_DynamoFlight bad = Inl e"
  then have "flightsLoop d (pre @ bad # rest) [] s1 = flightsLoop d (bad # rest) flights s2"
    by (simp add: flightsLoop_append_ok)
  with a show "GetAllFlights d s = (([], Some e), s2)"
    by (simp add: GetAllFlights_eq)
next
  assume a: "scanTable d ''flights'' s = ((result, None), s1) \<and> Scan_Items result = pre @ bad # rest \<and>
    flightsLoop d pre [] s1 = ((flights, None), s2) \<and> UnmarshalMap_DynamoFlight bad = Inr item \<and>
    DynamoPassengers item = ids @ passengerId # ids' \<and>
    convertDynamoFlightToFlight (GetPassenger d) (item\<lparr>DynamoPassengers := ids\<rparr>) s2 =
      ((Some flight, None), s3) \<and>
    GetPassenger d passengerId s3 = ((passenger, Some e), s4)"
  let ?f0 = "\<lparr>Number = DynamoNumber item, Capacity = DynamoCapacity item,
              Captain = DynamoCaptain item, Plane = DynamoPlane item, Passengers = []\<rparr>"
  from a have "convertLoop (GetPassenger d) ids ?f0 s2 = ((Some flight, None), s3)"
    by (simp add: convertDynamoFlightToFlight_def)
  then have "convertLoop (GetPassenger d) (ids @ passengerId # ids') ?f0 s2 =
      convertLoop (GetPassenger d) (passengerId # ids') flight s3"
    by (rule convertLoop_append_ok)
  with a have "convertDynamoFlightToFlight (GetPassenger d) item s2 = ((None, Some e), s4)"
    by (simp add: convertDynamoFlightToFlight_def)
  moreover from a have "flightsLoop d (pre @ bad # rest) [] s1 = flightsLoop d (bad # rest) flights s2"
    by (simp add: flightsLoop_append_ok)
  ultimately show "GetAllFlights d s = (([], Some e), s4)"
    using a by (simp add: GetAllFlights_eq)
next
  assume "snd (fst (GetAllPassengers d s)) \<noteq> None"
  then show "fst (fst (GetAllPassengers d s)) = []"
    by (auto simp: GetAllPassengers_eq passengersLoop_error split: option.splits)
next
  assume "snd (fst (GetAllFlights d s)) \<noteq> None"
  then show "fst (fst (GetAllFlights d s)) = []"
    by (auto simp: GetAllFlights_eq flightsLoop_error split: option.splits)
qed

lemma decode_bad:
  "UnmarshalMap_Passenger badPassenger = Inl (UnmarshalError ''name'')"
  "UnmarshalMap_DynamoFlight badFlight = Inl (UnmarshalError ''capacity'')"
  "UnmarshalMap_Passenger ann = Inr \<lparr>ID = ''p1'', Name = ''Ann''\<rparr>"
  "UnmarshalMap_DynamoFlight flightWithBad =
     Inr \<lparr>DynamoNumber = ''AF1'', DynamoPassengers = [''p1'', ''p3''], DynamoCapacity = 0,
          DynamoCaptain = '''', DynamoPlane = ''''\<rparr>"
  by code_simp+

lemma mem_scanTable_sample:
  "scanTable memDb ''passengers'' (sample fs ps) =
     ((\<lparr>Scan_Items = ps, Scan_LastEvaluatedKey = Map.empty\<rparr>, None), sample fs ps)"
  "scanTable memDb ''flights'' (sample fs ps) =
     ((\<lparr>Scan_Items = fs, Scan_LastEvaluatedKey = Map.empty\<rparr>, None), sample fs ps)"
  by (simp_all add: scanTable_def svc_memDb mem_sel mem_Scan_def sample_def)

lemma first_flight_listed:
  "fst (flightsLoop memDb [flightBooked] [] (sample fs [ann, badPassenger, bob])) =
     ([Some \<lparr>Number = ''BA100'', Capacity = 2, Captain = ''Kirk'', Plane = ''A320'',
             Passengers = [Some \<lparr>ID = ''p2'', Name = ''Bob''\<rparr>,
                           Some \<lparr>ID = ''p1'', Name = ''Ann''\<rparr>]\<rparr>], None)"
  by (simp add: convertDynamoFlightToFlight_def GetPassenger_def svc_memDb mem_sel mem_GetItem_def
      sample_def keyOf_def findRow_def hasKey_def ann_def bob_def badPassenger_def flightBooked_def
      UnmarshalMap_DynamoFlight_def UnmarshalMap_Passenger_def decodeString_def decodeInt_def
      decodeStringSet_def ParseInt_def digitVal_def)


lemma lookup_ann:
  "convertDynamoFlightToFlight (GetPassenger memDb)
     \<lparr>DynamoNumber = ''AF1'', DynamoPassengers = [''p1''], DynamoCapacity = 0,
      DynamoCaptain = '''', DynamoPlane = ''''\<rparr> (sample fs [ann, badPassenger, bob]) =
   ((Some \<lparr>Number = ''AF1'', Capacity = 0, Captain = '''', Plane = '''',
           Passengers = [Some \<lparr>ID = ''p1'', Name = ''Ann''\<rparr>]\<rparr>, None),
    sample fs [ann, badPassenger, bob])"
  by (simp add: convertDynamoFlightToFlight_def GetPassenger_def svc_memDb mem_sel mem_GetItem_def
      sample_def keyOf_def findRow_def hasKey_def ann_def bob_def badPassenger_def
      UnmarshalMap_Passenger_def decodeString_def)

lemma lookup_bad:
  "GetPassenger memDb ''p3'' (sample fs [ann, badPassenger, bob]) =
     ((None, Some (UnmarshalError ''name'')), sample fs [ann, badPassenger, bob])"
  by (simp add: GetPassenger_def svc_memDb mem_sel mem_GetItem_def
      sample_def keyOf_def findRow_def hasKey_def ann_def bob_def badPassenger_def
      UnmarshalMap_Passenger_def decodeString_def)

theorem listing_aborts_on_first_failure_witness:
  "UnmarshalMap_Passenger badPassenger = Inl (UnmarshalError ''name'') \<and>
   GetAllPassengers memDb (sample [flightBooked, badFlight] [ann, badPassenger, bob]) =
     (([], Some (UnmarshalError ''name'')), sample [flightBooked, badFlight] [ann, badPassenger, bob]) \<and>
   UnmarshalMap_DynamoFlight badFlight = Inl (UnmarshalError ''capacity'') \<and>
   GetAllFlights memDb (sample [flightBooked, badFlight] [ann, badPassenger, bob]) =
     (([], Some (UnmarshalError ''capacity'')),
      sample [flightBooked, badFlight] [ann, badPassenger, bob]) \<and>
   GetPassenger memDb ''p3'' (sample [flightBooked, flightWithBad] [ann, badPassenger, bob]) =
     ((None, Some (UnmarshalError ''name'')),
      sample [flightBooked, flightWithBad] [ann, badPassenger, bob]) \<and>
   GetAllFlights memDb (sample [flightBooked, flightWithBad] [ann, badPassenger, bob]) =
     (([], Some (UnmarshalError ''name'')),
      sample [flightBooked, flightWithBad] [ann, badPassenger, bob]) \<and>
   fst (fst (GetAllFlights memDb (sample [flightBooked, flightWithBad] [ann, badPassenger, bob]))) = []"
proof -
  let ?ps = "[ann, badPassenger, bob]"
  let ?B = "sample [flightBooked, badFlight] ?ps"
  let ?C = "sample [flightBooked, flightWithBad] ?ps"
  let ?fl = "[Some \<lparr>Number = ''BA100'', Capacity = 2, Captain = ''Kirk'', Plane = ''A320'',
             Passengers = [Some \<lparr>ID = ''p2'', Name = ''Bob''\<rparr>,
                           Some \<lparr>ID = ''p1'', Name = ''Ann''\<rparr>]\<rparr>]"
  let ?item = "\<lparr>DynamoNumber = ''AF1'', DynamoPassengers = [''p1'', ''p3''], DynamoCapacity = 0,
          DynamoCaptain = '''', DynamoPlane = ''''\<rparr>"
  have loop: "\<And>fs. flightsLoop memDb [flightBooked] [] (sample fs ?ps) = ((?fl, None), sample fs ?ps)"
    by (simp only: prod_eq_iff fst_conv snd_conv first_flight_listed mem_flightsLoop_state simp_thms)
  have a: "scanTable memDb ''passengers'' ?B =
        ((\<lparr>Scan_Items = ?ps, Scan_LastEvaluatedKey = Map.empty\<rparr>, None), ?B) \<and>
      Scan_Items \<lparr>Scan_Items = ?ps, Scan_LastEvaluatedKey = Map.empty\<rparr> = [ann] @ badPassenger # [bob] \<and>
      map UnmarshalMap_Passenger [ann] = map Inr [\<lparr>ID = ''p1'', Name = ''Ann''\<rparr>] \<and>
      UnmarshalMap_Passenger badPassenger = Inl (UnmarshalError ''name'')"
    by (simp add: mem_scanTable_sample decode_bad)
  have b: "scanTable memDb ''flights'' ?B =
        ((\<lparr>Scan_Items = [flightBooked, badFlight], Scan_LastEvaluatedKey = Map.empty\<rparr>, None), ?B) \<and>
      Scan_Items \<lparr>Scan_Items = [flightBooked, badFlight], Scan_LastEvaluatedKey = Map.empty\<rparr> =
        [flightBooked] @ badFlight # [] \<and>
      flightsLoop memDb [flightBooked] [] ?B = ((?fl, None), ?B) \<and>
      UnmarshalMap_DynamoFlight badFlight = Inl (UnmarshalError ''capacity'')"
    by (intro conjI loop decode_bad) (simp_all add: mem_scanTable_sample)
  have c: "scanTable memDb ''flights'' ?C =
        ((\<lparr>Scan_Items = [flightBooked, flightWithBad], Scan_LastEvaluatedKey = Map.empty\<rparr>, None), ?C) \<and>
      Scan_Items \<lparr>Scan_Items = [flightBooked, flightWithBad], Scan_LastEvaluatedKey = Map.empty\<rparr> =
        [flightBooked] @ flightWithBad # [] \<and>
      flightsLoop memDb [flightBooked] [] ?C = ((?fl, None), ?C) \<and>
      UnmarshalMap_DynamoFlight flightWithBad = Inr ?item \<and>
      DynamoPassengers ?item = [''p1''] @ ''p3'' # [] \<and>
      convertDynamoFlightToFlight (GetPassenger memDb) (?item\<lparr>DynamoPassengers := [''p1'']\<rparr>) ?C =
        ((Some \<lparr>Number = ''AF1'', Capacity = 0, Captain = '''', Plane = '''',
           Passengers = [Some \<lparr>ID = ''p1'', Name = ''Ann''\<rparr>]\<rparr>, None), ?C) \<and>
      GetPassenger memDb ''p3'' ?C = ((None, Some (UnmarshalError ''name'')), ?C)"
    by (intro conjI loop decode_bad lookup_bad) (simp_all add: mem_scanTable_sample lookup_ann)
  have ra: "GetAllPassengers memDb ?B = (([], Some (UnmarshalError ''name'')), ?B)"
    using a listing_aborts_on_first_failure
      [where d = memDb and s = ?B and ?s1.0 = ?B and pre = "[ann]" and bad = badPassenger
         and rest = "[bob]" and ps = "[\<lparr>ID = ''p1'', Name = ''Ann''\<rparr>]"
         and e = "UnmarshalError ''name''"
         and result = "\<lparr>Scan_Items = ?ps, Scan_LastEvaluatedKey = Map.empty\<rparr>"]
    by blast
  have rb: "GetAllFlights memDb ?B = (([], Some (UnmarshalError ''capacity'')), ?B)"
    using b listing_aborts_on_first_failure
      [where d = memDb and s = ?B and ?s1.0 = ?B and ?s2.0 = ?B and pre = "[flightBooked]"
         and bad = badFlight and rest = "[]" and flights = ?fl
         and e = "UnmarshalError ''capacity''"
         and result = "\<lparr>Scan_Items = [flightBooked, badFlight], Scan_LastEvaluatedKey = Map.empty\<rparr>"]
    by blast
  have rc: "GetAllFlights memDb ?C = (([], Some (UnmarshalError ''name'')), ?C)"
    using c listing_aborts_on_first_failure
      [where d = memDb and s = ?C and ?s1.0 = ?C and ?s2.0 = ?C and ?s3.0 = ?C and ?s4.0 = ?C
         and pre = "[flightBooked]" and bad = flightWithBad and rest = "[]" and flights = ?fl
         and item = ?item and ids = "[''p1'']" and passengerId = "''p3''" and ids' = "[]"
         and flight = "\<lparr>Number = ''AF1'', Capacity = 0, Captain = '''', Plane = '''',
           Passengers = [Some \<lparr>ID = ''p1'', Name = ''Ann''\<rparr>]\<rparr>"
         and passenger = None
         and e = "UnmarshalError ''name''"
         and result = "\<lparr>Scan_Items = [flightBooked, flightWithBad], Scan_LastEvaluatedKey = Map.empty\<rparr>"]
    by blast
  have rd: "fst (fst (GetAllFlights memDb ?C)) = []"
    using rc listing_aborts_on_first_failure [where d = memDb and s = ?C]
    by simp
  show ?thesis
    using a b c ra rb rc rd by blast
qed

section \<open>The scenario of the specification\<close>

text \<open>
  The concrete scenario of the specification, run on the reference store: a passenger is
  created, booked on the seeded flight, listed with the flight, cancelled and deleted;
  the last read returns the empty record.
\<close>

lemma scenario:
  "fst (CreatePassenger fixedSource memDb ''Alice'' (seeded True)) = Some (Some alice, None)"
  "fst (BookFlight memDb ''BA100'' (ID alice) afterCreate) = (True, None)"
  "passengerIds afterBook ''BA100'' = [ID alice]"
  "fst (GetAllFlights memDb afterBook) =
     ([Some \<lparr>Number = ''BA100'', Capacity = 0, Captain = ''Kirk'', Plane = ''A320'',
             Passengers = [Some alice]\<rparr>], None)"
  "fst (CancelBooking memDb ''BA100'' (ID alice) afterBook) = (True, None)"
  "passengerIds afterCancel ''BA100'' = []"
  "fst (DeletePassenger memDb (ID alice) afterCancel) = (True, None)"
  "fst (GetPassenger memDb (ID alice) afterDelete) = (Some \<lparr>ID = '''', Name = ''''\<rparr>, None)"
  if "afterCreate = snd (CreatePassenger fixedSource memDb ''Alice'' (seeded True))"
    and "afterBook = snd (BookFlight memDb ''BA100'' (ID alice) afterCreate)"
    and "afterCancel = snd (CancelBooking memDb ''BA100'' (ID alice) afterBook)"
    and "afterDelete = snd (DeletePassenger memDb (ID alice) afterCancel)"
  unfolding that by code_simp+

end
